theory Spec2Isabelle
  imports Complex_Main
begin

section \<open>Microrheology core of \<^verbatim>\<open>mr/viscosity.py\<close>\<close>

text \<open>
  The module computes a film viscosity with the Fischer model (\<^verbatim>\<open>fischer\<close>) and the complex
  shear modulus by the generalised Stokes-Einstein relation (\<^verbatim>\<open>gse\<close>), both on top of a
  local weighted parabola fit in log-log space (\<^verbatim>\<open>log_derivatives\<close>,
  \<^verbatim>\<open>_parabolic_spline\<close>).

  Numbers are modelled as mathematical reals: rounding and overflow of IEEE doubles are not
  part of the model. What IEEE arithmetic does where real arithmetic is undefined is part of
  the model: scalar numpy operations return the special values of \<open>npfloat\<close>, Python float
  division by zero raises, and array computations that leave the finite reals end in the
  outcome \<open>NonFinite\<close>.
\<close>

subsection \<open>Scalar numpy arithmetic\<close>

datatype error = AssertionError | ZeroDivisionError | ValueError

text \<open>A numpy float64 scalar: a finite value, an infinity or nan. Signed zeros are not
  distinguished.\<close>

datatype npfloat = Fin real | PInf | NInf | NaN

fun np_neg :: "npfloat \<Rightarrow> npfloat" where
  "np_neg (Fin x) = Fin (- x)"
| "np_neg PInf = NInf"
| "np_neg NInf = PInf"
| "np_neg NaN = NaN"

fun np_add :: "npfloat \<Rightarrow> npfloat \<Rightarrow> npfloat" where
  "np_add (Fin x) (Fin y) = Fin (x + y)"
| "np_add NaN _ = NaN"
| "np_add _ NaN = NaN"
| "np_add PInf NInf = NaN"
| "np_add NInf PInf = NaN"
| "np_add PInf _ = PInf"
| "np_add _ PInf = PInf"
| "np_add NInf _ = NInf"
| "np_add _ NInf = NInf"

definition np_sub :: "npfloat \<Rightarrow> npfloat \<Rightarrow> npfloat" where
  "np_sub x y = np_add x (np_neg y)"

text \<open>An infinity with the sign of a real number; \<open>0 * inf\<close> is nan.\<close>

definition signed_inf :: "real \<Rightarrow> npfloat" where
  "signed_inf s = (if 0 < s then PInf else if s < 0 then NInf else NaN)"

fun np_mul :: "npfloat \<Rightarrow> npfloat \<Rightarrow> npfloat" where
  "np_mul (Fin x) (Fin y) = Fin (x * y)"
| "np_mul NaN _ = NaN"
| "np_mul _ NaN = NaN"
| "np_mul (Fin x) PInf = signed_inf x"
| "np_mul (Fin x) NInf = signed_inf (- x)"
| "np_mul PInf (Fin y) = signed_inf y"
| "np_mul NInf (Fin y) = signed_inf (- y)"
| "np_mul PInf PInf = PInf"
| "np_mul PInf NInf = NInf"
| "np_mul NInf PInf = NInf"
| "np_mul NInf NInf = PInf"

text \<open>numpy division does not raise: a finite nonzero value over zero is an infinity, zero
  over zero is nan (both with a RuntimeWarning only).\<close>

fun np_div :: "npfloat \<Rightarrow> npfloat \<Rightarrow> npfloat" where
  "np_div (Fin x) (Fin y) = (if y \<noteq> 0 then Fin (x / y) else signed_inf x)"
| "np_div NaN _ = NaN"
| "np_div _ NaN = NaN"
| "np_div (Fin x) PInf = Fin 0"
| "np_div (Fin x) NInf = Fin 0"
| "np_div PInf (Fin y) = (if 0 \<le> y then PInf else NInf)"
| "np_div NInf (Fin y) = (if 0 \<le> y then NInf else PInf)"
| "np_div PInf PInf = NaN"
| "np_div PInf NInf = NaN"
| "np_div NInf PInf = NaN"
| "np_div NInf NInf = NaN"

fun np_tanh :: "npfloat \<Rightarrow> npfloat" where
  "np_tanh (Fin x) = Fin (tanh x)"
| "np_tanh PInf = Fin 1"
| "np_tanh NInf = Fin (- 1)"
| "np_tanh NaN = NaN"

fun np_sqrt :: "npfloat \<Rightarrow> npfloat" where
  "np_sqrt (Fin x) = (if 0 \<le> x then Fin (sqrt x) else NaN)"
| "np_sqrt PInf = PInf"
| "np_sqrt NInf = NaN"
| "np_sqrt NaN = NaN"

text \<open>\<^verbatim>\<open>np.log\<close> of a finite value: minus infinity at zero and nan below, where HOL's \<open>ln\<close>
  would return an arbitrary real.\<close>

definition np_log :: "real \<Rightarrow> npfloat" where
  "np_log x = (if 0 < x then Fin (ln x) else if x = 0 then NInf else NaN)"

text \<open>\<^verbatim>\<open>np.arctan2(y, x)\<close> on finite arguments: the angle of the point \<open>(x, y)\<close> in
  \<open>(-pi, pi]\<close>, and 0 at the origin.\<close>

definition np_arctan2 :: "real \<Rightarrow> real \<Rightarrow> real" where
  "np_arctan2 y x =
     (if 0 < x then arctan (y / x)
      else if x < 0 then (if 0 \<le> y then arctan (y / x) + pi else arctan (y / x) - pi)
      else if 0 < y then pi / 2
      else if y < 0 then - (pi / 2)
      else 0)"

subsection \<open>\<^verbatim>\<open>fischer\<close>\<close>

text \<open>The intermediate quantities of \<^verbatim>\<open>fischer\<close>, in the order of the source. The arguments
  are Python floats. \<^verbatim>\<open>np.cos\<close> makes \<open>d\<close> a numpy scalar, so \<^verbatim>\<open>d/a\<close> is a numpy division.\<close>

definition fischer_d :: "real \<Rightarrow> real \<Rightarrow> real" where
  "fischer_d a contact_angle = a * (cos (contact_angle * pi / 180) - 1)"

definition fischer_c0 :: "real \<Rightarrow> real \<Rightarrow> npfloat" where
  "fischer_c0 a contact_angle =
     (let d = fischer_d a contact_angle
      in np_mul (Fin (6 * pi))
           (np_sqrt (np_tanh
              (np_div (np_mul (Fin 32) (np_add (np_div (Fin d) (Fin a)) (Fin 2)))
                      (Fin (9 * pi\<^sup>2))))))"

definition fischer_c1 :: "real \<Rightarrow> real \<Rightarrow> npfloat" where
  "fischer_c1 a contact_angle =
     (let d = fischer_d a contact_angle
      in np_mul (Fin (- 4)) (np_log ((2 / pi) * np_arctan2 (d + 2 * a) (3 * a))))"

definition default_bulk_visc :: real where
  "default_bulk_visc = 1 / 1000"

definition default_T :: real where
  "default_T = 298"

text \<open>\<^verbatim>\<open>fischer(D, a, contact_angle, bulk_visc, T)\<close>. The two \<^verbatim>\<open>logger.info\<close> calls only
  format values and are left out. \<^verbatim>\<open>kT/D\<close> divides two Python floats and raises
  \<^verbatim>\<open>ZeroDivisionError\<close> for \<open>D = 0\<close>; the last division is a numpy division.\<close>

definition fischer :: "real \<Rightarrow> real \<Rightarrow> real \<Rightarrow> real \<Rightarrow> real \<Rightarrow> error + npfloat" where
  "fischer D a contact_angle bulk_visc T =
     (let c0 = fischer_c0 a contact_angle;
          c1 = fischer_c1 a contact_angle;
          kT = 41 / 10 ^ 10 * T / 298;
          bulk_visc' = bulk_visc * (1 / 10 ^ 6)
      in if D = 0 then Inl ZeroDivisionError
         else Inr (np_div (np_sub (Fin (kT / D)) (np_mul (Fin (bulk_visc' * a)) c0)) c1))"

text \<open>The formula of the specification, in the words of the specification, over the reals.\<close>

definition film_viscosity_spec :: "real \<Rightarrow> real \<Rightarrow> real \<Rightarrow> real \<Rightarrow> real \<Rightarrow> real" where
  "film_viscosity_spec D a contact_angle bulk_visc T =
     (let d = a * (cos (contact_angle * pi / 180) - 1);
          c0 = 6 * pi * sqrt (tanh (32 * (d / a + 2) / (9 * pi\<^sup>2)));
          c1 = - 4 * ln ((2 / pi) * np_arctan2 (d + 2 * a) (3 * a));
          kT = 41 / 10 ^ 10 * T / 298;
          bulk_visc_SI = bulk_visc * (1 / 10 ^ 6)
      in (kT / D - bulk_visc_SI * a * c0) / c1)"

subsection \<open>Outcomes of array computations, and the array store\<close>

text \<open>
  What a call on arrays does: it raises, or it returns, or it leaves what the model follows.
  \<open>NonFinite\<close>: an array operation produced nan or an infinity (numpy only warns); the nan
  is carried on by numpy, and library routines may raise on it later, which the model does
  not follow. \<open>RankDeficient\<close>: a singular normal matrix on three or more distinct abscissae
  of nonzero weight, which exact arithmetic excludes; the model gives no fit there.
\<close>

datatype 'a outcome = Raise error | NonFinite | RankDeficient | Return 'a

text \<open>numpy arrays are objects: several names may refer to one array, and an indexed
  assignment through one name is seen through the others. The store maps a reference to
  the array's current contents.\<close>

type_synonym ref = nat
type_synonym heap = "real list list"

definition zeros_like :: "real list \<Rightarrow> heap \<Rightarrow> ref \<times> heap" where
  "zeros_like f h = (length h, h @ [replicate (length f) 0])"

definition setitem :: "heap \<Rightarrow> ref \<Rightarrow> nat \<Rightarrow> real \<Rightarrow> heap" where
  "setitem h r i v = h[r := (h ! r)[i := v]]"

definition deref :: "heap \<Rightarrow> ref \<Rightarrow> real list" where
  "deref h r = h ! r"

subsection \<open>\<^verbatim>\<open>np.polynomial.polynomial.polyfit\<close> with \<^verbatim>\<open>deg=2\<close>\<close>

text \<open>
  Library code, not part of the repository, modelled from its documentation and from the
  specification's weighted least squares: \<^verbatim>\<open>polyfit(x, y, 2, w=w)\<close> returns the
  coefficients \<open>(c, b, a)\<close> that minimise \<open>\<Sum>i. (w\<^sub>i * (y\<^sub>i - (a*x\<^sub>i\<^sup>2 + b*x\<^sub>i + c)))\<^sup>2\<close>: the
  weight applies to the unsquared residual. Where the 3x3 matrix of the normal equations is
  regular, that minimiser is unique and is their solution, written here with Cramer's rule.

  Where it is singular (fewer than three distinct abscissae), \<^verbatim>\<open>polyfit\<close> warns
  (\<^verbatim>\<open>RankWarning\<close>) and returns what \<^verbatim>\<open>lstsq\<close> returns for the design matrix with its columns
  divided by their norms \<^verbatim>\<open>scl\<close> (a zero norm replaced by 1): of all minimisers, the one whose
  scaled coefficients \<open>scl\<^sub>j * c\<^sub>j\<close> have the least norm. The minimisers are the parabolas that
  pass, at each distinct abscissa, through the weighted mean of the data there, so this is
  \<open>c\<^sub>j = d\<^sub>j * \<Sum>k. l\<^sub>k * v\<^sub>k^j\<close> with \<open>d\<^sub>j = 1 / scl\<^sub>j\<^sup>2\<close> and the multipliers \<open>l\<close> fixed by the
  interpolation conditions.
\<close>

definition moment :: "real list \<Rightarrow> real list \<Rightarrow> nat \<Rightarrow> real" where
  "moment x W k = sum_list (map (\<lambda>(xi, Wi). Wi * xi ^ k) (zip x W))"

definition moment_y :: "real list \<Rightarrow> real list \<Rightarrow> real list \<Rightarrow> nat \<Rightarrow> real" where
  "moment_y x y W k = sum_list (map (\<lambda>(xi, yi, Wi). Wi * xi ^ k * yi) (zip x (zip y W)))"

definition det3 ::
  "real \<Rightarrow> real \<Rightarrow> real \<Rightarrow> real \<Rightarrow> real \<Rightarrow> real \<Rightarrow> real \<Rightarrow> real \<Rightarrow> real \<Rightarrow> real" where
  "det3 a11 a12 a13 a21 a22 a23 a31 a32 a33 =
     a11 * (a22 * a33 - a23 * a32) - a12 * (a21 * a33 - a23 * a31)
       + a13 * (a21 * a32 - a22 * a31)"

definition gram_det :: "real list \<Rightarrow> real list \<Rightarrow> real" where
  "gram_det x W =
     det3 (moment x W 0) (moment x W 1) (moment x W 2)
          (moment x W 1) (moment x W 2) (moment x W 3)
          (moment x W 2) (moment x W 3) (moment x W 4)"

text \<open>The distinct abscissae that carry a nonzero weight.\<close>

definition support :: "real list \<Rightarrow> real list \<Rightarrow> real list" where
  "support x W = remdups (map fst (filter (\<lambda>(xi, Wi). Wi \<noteq> 0) (zip x W)))"

text \<open>The weighted mean of the data at the abscissa \<open>v\<close>.\<close>

definition group_mean :: "real list \<Rightarrow> real list \<Rightarrow> real list \<Rightarrow> real \<Rightarrow> real" where
  "group_mean x y W v =
     sum_list (map (\<lambda>(xi, yi, Wi). if xi = v then Wi * yi else 0) (zip x (zip y W)))
       / sum_list (map (\<lambda>(xi, Wi). if xi = v then Wi else 0) (zip x W))"

text \<open>The squared norm \<open>scl\<^sub>j\<^sup>2\<close> of column \<open>j\<close> of the weighted design matrix, after
  \<^verbatim>\<open>scl[scl == 0] = 1\<close>.\<close>

definition column_norm2 :: "real list \<Rightarrow> real list \<Rightarrow> nat \<Rightarrow> real" where
  "column_norm2 x W j = (if moment x W (2 * j) = 0 then 1 else moment x W (2 * j))"

fun min_norm_solution ::
  "(nat \<Rightarrow> real) \<Rightarrow> (real \<Rightarrow> real) \<Rightarrow> real list \<Rightarrow> (real \<times> real \<times> real) outcome" where
  "min_norm_solution d mean [] = Return (0, 0, 0)"
| "min_norm_solution d mean [v] =
     (let n = d 0 + d 1 * v\<^sup>2 + d 2 * v ^ 4;
          l = mean v / n
      in Return (d 0 * l, d 1 * (l * v), d 2 * (l * v\<^sup>2)))"
| "min_norm_solution d mean [v1, v2] =
     (let m11 = d 0 + d 1 * v1\<^sup>2 + d 2 * v1 ^ 4;
          m12 = d 0 + d 1 * (v1 * v2) + d 2 * (v1\<^sup>2 * v2\<^sup>2);
          m22 = d 0 + d 1 * v2\<^sup>2 + d 2 * v2 ^ 4;
          det = m11 * m22 - m12 * m12;
          l1 = (m22 * mean v1 - m12 * mean v2) / det;
          l2 = (m11 * mean v2 - m12 * mean v1) / det
      in Return (d 0 * (l1 + l2), d 1 * (l1 * v1 + l2 * v2), d 2 * (l1 * v1\<^sup>2 + l2 * v2\<^sup>2)))"
| "min_norm_solution d mean (v1 # v2 # v3 # vs) = RankDeficient"

definition min_norm_fit :: "real list \<Rightarrow> real list \<Rightarrow> real list \<Rightarrow> (real \<times> real \<times> real) outcome" where
  "min_norm_fit x y W =
     min_norm_solution (\<lambda>j. 1 / column_norm2 x W j) (group_mean x y W) (support x W)"

definition polyfit2 :: "real list \<Rightarrow> real list \<Rightarrow> real list \<Rightarrow> (real \<times> real \<times> real) outcome" where
  "polyfit2 x y w =
     (let W = map (\<lambda>wi. wi\<^sup>2) w;
          S = moment x W;
          T = moment_y x y W;
          D = gram_det x W
      in if D = 0 then min_norm_fit x y W
         else Return
           (det3 (T 0) (S 1) (S 2) (T 1) (S 2) (S 3) (T 2) (S 3) (S 4) / D,
            det3 (S 0) (T 0) (S 2) (S 1) (T 1) (S 3) (S 2) (T 2) (S 4) / D,
            det3 (S 0) (S 1) (T 0) (S 1) (S 2) (T 1) (S 2) (S 3) (T 2) / D))"

subsection \<open>\<^verbatim>\<open>_parabolic_spline\<close> and \<^verbatim>\<open>log_derivatives\<close>\<close>

text \<open>The Gaussian weights \<^verbatim>\<open>np.exp(-(x - x0)**2/(2*width**2))\<close>. For \<open>width = 0\<close> the
  division is by zero, and the entry with \<open>x = x0\<close> is nan.\<close>

definition gaussian_weights :: "real list \<Rightarrow> real \<Rightarrow> real \<Rightarrow> real list" where
  "gaussian_weights x x0 width = map (\<lambda>xi. exp (- (xi - x0)\<^sup>2 / (2 * width\<^sup>2))) x"

definition parabolic_spline ::
  "real list \<Rightarrow> real list \<Rightarrow> real \<Rightarrow> real \<Rightarrow> (real \<times> real \<times> real) outcome" where
  "parabolic_spline x f x0 width =
     (if width = 0 then NonFinite
      else let weights = gaussian_weights x x0 width
           in polyfit2 x f weights)"

text \<open>The loop of \<^verbatim>\<open>log_derivatives\<close> over \<^verbatim>\<open>enumerate(logx)\<close>: three indexed assignments per
  point, through the three names \<open>smooth_f\<close>, \<open>df\<close> and \<open>ddf\<close>.\<close>

fun log_derivatives_loop ::
  "real list \<Rightarrow> real list \<Rightarrow> real \<Rightarrow> ref \<Rightarrow> ref \<Rightarrow> ref \<Rightarrow> (nat \<times> real) list \<Rightarrow> heap \<Rightarrow> heap outcome"
where
  "log_derivatives_loop logx logf width smooth_f df ddf [] h = Return h"
| "log_derivatives_loop logx logf width smooth_f df ddf ((i, x0) # rest) h =
     (case parabolic_spline logx logf x0 width of
        Raise e \<Rightarrow> Raise e
      | NonFinite \<Rightarrow> NonFinite
      | RankDeficient \<Rightarrow> RankDeficient
      | Return (c, b, a) \<Rightarrow>
          (let h1 = setitem h smooth_f i (exp (a * x0\<^sup>2 + b * x0 + c));
               h2 = setitem h1 df i (2 * a * x0 + b);
               h3 = setitem h2 ddf i (2 * a)
           in log_derivatives_loop logx logf width smooth_f df ddf rest h3))"

definition enumerate_list :: "'a list \<Rightarrow> (nat \<times> 'a) list" where
  "enumerate_list xs = zip [0..<length xs] xs"

definition default_width :: real where
  "default_width = 7 / 10"

text \<open>\<^verbatim>\<open>log_derivatives(x, f, width)\<close>. The assertion comes first. \<^verbatim>\<open>np.log\<close> does not raise on
  a value that is not positive: it yields nan or minus infinity. The chained assignment
  \<^verbatim>\<open>smooth_f = df = ddf = np.zeros_like(f)\<close> allocates one array and binds the three names to
  it. The function returns the three references. The arrays are arrays of floats, as
  \<^verbatim>\<open>gse\<close> passes them.\<close>

definition log_derivatives ::
  "real list \<Rightarrow> real list \<Rightarrow> real \<Rightarrow> heap \<Rightarrow> ((ref \<times> ref \<times> ref) \<times> heap) outcome" where
  "log_derivatives x f width h =
     (if length x \<noteq> length f then Raise AssertionError
      else if (\<exists>v \<in> set x \<union> set f. v \<le> 0) then NonFinite
      else
        (let logx = map ln x;
             logf = map ln f;
             (r, h0) = zeros_like f h;
             smooth_f = r;
             df = r;
             ddf = r
         in case log_derivatives_loop logx logf width smooth_f df ddf (enumerate_list logx) h0 of
              Raise e \<Rightarrow> Raise e
            | NonFinite \<Rightarrow> NonFinite
            | RankDeficient \<Rightarrow> RankDeficient
            | Return h' \<Rightarrow> Return ((smooth_f, df, ddf), h')))"

text \<open>A curve in the sense of the specification: equal lengths, all values positive.\<close>

definition valid_curve :: "real list \<Rightarrow> real list \<Rightarrow> bool" where
  "valid_curve x f \<longleftrightarrow> length x = length f \<and> (\<forall>v \<in> set x. 0 < v) \<and> (\<forall>v \<in> set f. 0 < v)"

text \<open>Every local fit has a regular normal matrix, that is a unique least-squares
  parabola; this takes three distinct abscissae.\<close>

definition fits_regular :: "real list \<Rightarrow> real \<Rightarrow> bool" where
  "fits_regular logx width \<longleftrightarrow>
     (\<forall>x0 \<in> set logx. gram_det logx (map (\<lambda>wi. wi\<^sup>2) (gaussian_weights logx x0 width)) \<noteq> 0)"

text \<open>The quadratic coefficient \<open>a\<close> of the fit around \<open>x0\<close>, where the fit is regular.\<close>

definition quad_coeff :: "real list \<Rightarrow> real list \<Rightarrow> real \<Rightarrow> real \<Rightarrow> real" where
  "quad_coeff logx logf x0 width =
     (let W = map (\<lambda>wi. wi\<^sup>2) (gaussian_weights logx x0 width);
          S = moment logx W;
          T = moment_y logx logf W
      in det3 (S 0) (S 1) (T 0) (S 1) (S 2) (T 1) (S 2) (S 3) (T 2) / gram_det logx W)"

text \<open>The three sequences a caller of \<^verbatim>\<open>log_derivatives\<close> reads through the returned
  references.\<close>

definition returned_arrays ::
  "((ref \<times> ref \<times> ref) \<times> heap) outcome \<Rightarrow> (real list \<times> real list \<times> real list) option" where
  "returned_arrays out =
     (case out of
        Return ((smooth_f, df, ddf), h) \<Rightarrow> Some (deref h smooth_f, deref h df, deref h ddf)
      | _ \<Rightarrow> None)"

subsection \<open>\<^verbatim>\<open>gse\<close>\<close>

text \<open>What \<^verbatim>\<open>gse\<close> hands to the logger.\<close>

datatype log_event =
    Warning_MSD real
  | Warning_G real
  | Info_Gp_clipped
  | Info_Gpp_clipped

text \<open>\<^verbatim>\<open>np.abs(v).max()\<close>: the reduction raises \<^verbatim>\<open>ValueError\<close> on an empty array.\<close>

fun abs_max :: "real list \<Rightarrow> error + real" where
  "abs_max [] = Inl ValueError"
| "abs_max (v # vs) = Inr (foldl max \<bar>v\<bar> (map abs vs))"

text \<open>\<^verbatim>\<open>scipy.special.gamma\<close> is library code and a parameter of the model; at its poles, the
  integers that are not positive, it returns an infinity or nan.\<close>

definition gamma_pole :: "real \<Rightarrow> bool" where
  "gamma_pole z \<longleftrightarrow> z \<le> 0 \<and> of_int \<lfloor>z\<rfloor> = z"

text \<open>The elementwise expressions of \<^verbatim>\<open>gse\<close>: the divisor of \<open>G_s\<close>, and the two moduli.\<close>

definition G_s_divisor :: "(real \<Rightarrow> real) \<Rightarrow> real \<times> real \<times> real \<Rightarrow> real" where
  "G_s_divisor gamma = (\<lambda>(f, df, ddf). f * gamma (1 + df) * (1 + ddf / 2))"

definition Gp_entry :: "real \<times> real \<times> real \<Rightarrow> real" where
  "Gp_entry = (\<lambda>(g, dg, ddg). g / (1 + ddg) * (cos (pi / 2 * dg) - (pi / 2 - 1) * dg * ddg))"

definition Gpp_entry :: "real \<times> real \<times> real \<Rightarrow> real" where
  "Gpp_entry =
     (\<lambda>(g, dg, ddg). g / (1 + ddg) * (sin (pi / 2 * dg) - (pi / 2 - 1) * (1 - dg) * ddg))"

text \<open>The local variables of \<^verbatim>\<open>gse\<close> before the clipping, read from the store where they are
  references, and the log so far.\<close>

record gse_locals =
  l_w :: "real list"
  l_f :: "real list"
  l_df :: "real list"
  l_ddf :: "real list"
  l_G_s :: "real list"
  l_g :: "real list"
  l_dg :: "real list"
  l_ddg :: "real list"
  l_Gp :: "real list"
  l_Gpp :: "real list"
  l_log :: "log_event list"

text \<open>Lines 33 to 48 of \<^verbatim>\<open>gse(t, r2, a, T, clip, width)\<close>. Both calls of \<^verbatim>\<open>log_derivatives\<close>
  are written without a width argument, so they run with its default. \<^verbatim>\<open>(DIM/3.)*kT/(pi*a)\<close>
  is Python float arithmetic and raises for \<open>a = 0\<close>; the array divisions do not raise.
  \<^verbatim>\<open>1./t\<close> only warns on a zero in \<open>t\<close>; the first call of \<^verbatim>\<open>log_derivatives\<close> then raises on
  mismatched lengths or meets the zero in \<^verbatim>\<open>np.log(t)\<close>, so \<open>s\<close> is only read where \<open>t\<close> is
  positive.\<close>

definition gse_body ::
  "(real \<Rightarrow> real) \<Rightarrow> real list \<Rightarrow> real list \<Rightarrow> real \<Rightarrow> real \<Rightarrow> real \<Rightarrow> real \<Rightarrow> gse_locals outcome"
where
  "gse_body gamma t r2 a T clip width =
     (let kT = 41 / 10 ^ 10 * T / 298;
          DIM = 2;
          s = map (\<lambda>ti. 1 / ti) t;
          w = s
      in (case log_derivatives t r2 default_width [] of
                 Raise e \<Rightarrow> Raise e
               | NonFinite \<Rightarrow> NonFinite
               | RankDeficient \<Rightarrow> RankDeficient
               | Return ((f_ref, df_ref, ddf_ref), h1) \<Rightarrow>
                   (let f = deref h1 f_ref; df = deref h1 df_ref; ddf = deref h1 ddf_ref
                    in case abs_max ddf of
                         Inl e \<Rightarrow> Raise e
                       | Inr m1 \<Rightarrow>
                           (let log1 = (if m1 > 15 / 100 then [Warning_MSD m1] else [])
                            in if a = 0 then Raise ZeroDivisionError
                               else if (\<exists>e \<in> set (zip f (zip df ddf)).
                                          gamma_pole (1 + fst (snd e)) \<or> G_s_divisor gamma e = 0)
                               then NonFinite
                               else
                                 (let G_s = map (\<lambda>e. (DIM / 3) * kT / (pi * a) / G_s_divisor gamma e)
                                              (zip f (zip df ddf))
                                  in case log_derivatives s G_s default_width h1 of
                                       Raise e \<Rightarrow> Raise e
                                     | NonFinite \<Rightarrow> NonFinite
                                     | RankDeficient \<Rightarrow> RankDeficient
                                     | Return ((g_ref, dg_ref, ddg_ref), h2) \<Rightarrow>
                                         (let g = deref h2 g_ref; dg = deref h2 dg_ref;
                                              ddg = deref h2 ddg_ref
                                          in case abs_max ddg of
                                               Inl e \<Rightarrow> Raise e
                                             | Inr m2 \<Rightarrow>
                                                 (let log2 = log1 @
                                                        (if m2 > 15 / 100 then [Warning_G m2] else [])
                                                  in if (\<exists>v \<in> set ddg. 1 + v = 0) then NonFinite
                                                     else Return
                                                       \<lparr>l_w = w, l_f = f, l_df = df, l_ddf = ddf,
                                                        l_G_s = G_s, l_g = g, l_dg = dg, l_ddg = ddg,
                                                        l_Gp = map Gp_entry (zip g (zip dg ddg)),
                                                        l_Gpp = map Gpp_entry (zip g (zip dg ddg)),
                                                        l_log = log2\<rparr>)))))))"

text \<open>The masked assignment \<^verbatim>\<open>G[G < clip*G_s] = 0\<close>.\<close>

definition clip_small :: "real \<Rightarrow> real list \<Rightarrow> real list \<Rightarrow> real list" where
  "clip_small clip G_s G = map (\<lambda>(Gi, Gsi). if Gi < clip * Gsi then 0 else Gi) (zip G G_s)"

definition any_small :: "real \<Rightarrow> real list \<Rightarrow> real list \<Rightarrow> bool" where
  "any_small clip G_s G \<longleftrightarrow> (\<exists>(Gi, Gsi) \<in> set (zip G G_s). Gi < clip * Gsi)"

definition default_clip :: real where
  "default_clip = 3 / 100"

text \<open>Lines 51 to 57 of \<^verbatim>\<open>gse\<close>, on the locals at that point: the two masked assignments,
  each under its \<^verbatim>\<open>np.any\<close> test, and the returned tuple \<open>(w, G_s, Gp, Gpp)\<close> with the log.\<close>

definition gse_clip ::
  "real \<Rightarrow> gse_locals \<Rightarrow> (real list \<times> real list \<times> real list \<times> real list) \<times> log_event list"
where
  "gse_clip clip L =
     (let G_s = l_G_s L;
          (Gp, log3) =
             (if any_small clip G_s (l_Gp L)
              then (clip_small clip G_s (l_Gp L), l_log L @ [Info_Gp_clipped])
              else (l_Gp L, l_log L));
          (Gpp, log4) =
             (if any_small clip G_s (l_Gpp L)
              then (clip_small clip G_s (l_Gpp L), log3 @ [Info_Gpp_clipped])
              else (l_Gpp L, log3))
      in ((l_w L, G_s, Gp, Gpp), log4))"

text \<open>\<^verbatim>\<open>gse\<close>: the body, then the clipping.\<close>

definition gse ::
  "(real \<Rightarrow> real) \<Rightarrow> real list \<Rightarrow> real list \<Rightarrow> real \<Rightarrow> real \<Rightarrow> real \<Rightarrow> real
     \<Rightarrow> ((real list \<times> real list \<times> real list \<times> real list) \<times> log_event list) outcome"
where
  "gse gamma t r2 a T clip width =
     (case gse_body gamma t r2 a T clip width of
        Raise e \<Rightarrow> Raise e
      | NonFinite \<Rightarrow> NonFinite
      | RankDeficient \<Rightarrow> RankDeficient
      | Return L \<Rightarrow> Return (gse_clip clip L))"

section \<open>Properties of \<^verbatim>\<open>fischer\<close>\<close>


lemma c1_arg_bounds:
  assumes "0 < a"
  shows "0 \<le> (2 / pi) * np_arctan2 (fischer_d a th + 2 * a) (3 * a)"
    and "(2 / pi) * np_arctan2 (fischer_d a th + 2 * a) (3 * a) < 1"
    and "(2 / pi) * np_arctan2 (fischer_d a th + 2 * a) (3 * a) = 0 \<longleftrightarrow> cos (th * pi / 180) = - 1"
proof -
  let ?c = "cos (th * pi / 180)"
  have y: "fischer_d a th + 2 * a = a * (?c + 1)"
    by (simp add: fischer_d_def algebra_simps)
  have c: "- 1 \<le> ?c" by simp
  have q: "(fischer_d a th + 2 * a) / (3 * a) = (?c + 1) / 3"
    using assms by (simp add: y)
  have at: "np_arctan2 (fischer_d a th + 2 * a) (3 * a) = arctan ((?c + 1) / 3)"
    using assms by (simp add: np_arctan2_def q)
  have c2: "0 \<le> ?c + 1" using c by linarith
  have nn: "0 \<le> arctan ((?c + 1) / 3)"
    using c2 by simp
  show "0 \<le> (2 / pi) * np_arctan2 (fischer_d a th + 2 * a) (3 * a)"
    using nn by (simp add: at)
  have "arctan ((?c + 1) / 3) < pi / 2" by (rule arctan_ubound)
  then show "(2 / pi) * np_arctan2 (fischer_d a th + 2 * a) (3 * a) < 1"
    unfolding at by (simp add: field_simps)
  show "(2 / pi) * np_arctan2 (fischer_d a th + 2 * a) (3 * a) = 0 \<longleftrightarrow> ?c = - 1"
    using c by (auto simp add: at arctan_eq_zero_iff)
qed


lemma fischer_c0_finite:
  assumes "0 < a"
  shows "fischer_c0 a th = Fin (6 * pi * sqrt (tanh (32 * (fischer_d a th / a + 2) / (9 * pi\<^sup>2))))"
proof -
  have "fischer_d a th / a + 2 = cos (th * pi / 180) + 1"
    using assms by (simp add: fischer_d_def field_simps)
  moreover have "0 \<le> cos (th * pi / 180) + 1"
    using cos_ge_minus_one [of "th * pi / 180"] by linarith
  ultimately have "0 \<le> 32 * (fischer_d a th / a + 2) / (9 * pi\<^sup>2)"
    by simp
  then have "0 \<le> tanh (32 * (fischer_d a th / a + 2) / (9 * pi\<^sup>2))"
    by (simp only: tanh_real_nonneg_iff)
  then show ?thesis
    using assms by (simp add: fischer_c0_def Let_def)
qed

lemma fischer_c1_cases:
  assumes "0 < a"
  shows "fischer_c1 a th =
     (if cos (th * pi / 180) = - 1 then PInf
      else Fin (- 4 * ln ((2 / pi) * np_arctan2 (fischer_d a th + 2 * a) (3 * a))))"
  using c1_arg_bounds(1,3) [OF assms, of th]
  by (auto simp add: fischer_c1_def Let_def np_log_def signed_inf_def)

lemma fischer_c1_pos:
  assumes "0 < a" and "cos (th * pi / 180) \<noteq> - 1"
  shows "0 < - 4 * ln ((2 / pi) * np_arctan2 (fischer_d a th + 2 * a) (3 * a))"
proof -
  let ?z = "(2 / pi) * np_arctan2 (fischer_d a th + 2 * a) (3 * a)"
  have "0 < ?z" using c1_arg_bounds(1,3) [OF assms(1), of th] assms(2) by linarith
  moreover have "?z < 1" by (rule c1_arg_bounds(2) [OF assms(1)])
  ultimately have "ln ?z < 0" by (simp only: ln_less_zero_iff)
  then show ?thesis by linarith
qed

text \<open>
  Claim C6. For every diffusivity \<open>D > 0\<close> and radius \<open>a > 0\<close>, \<^verbatim>\<open>fischer\<close> raises nothing and
  returns the finite value \<open>(kT/D - bulk_visc_SI*a*c0) / c1\<close> of the specification's formula; the
  result is a function of the five arguments alone. As long as \<open>cos (contact_angle*pi/180)\<close> is
  not \<open>-1\<close> the divisor \<open>c1\<close> is positive. At \<open>-1\<close> (180 degrees) the code takes
  \<^verbatim>\<open>np.log(0) = -inf\<close>, so \<open>c1 = +inf\<close> and the quotient is 0, which is also what the
  formula gives here with HOL's \<open>ln 0 = 0\<close> and \<open>x / 0 = 0\<close> (lemma \<open>fischer_at_180\<close>).
\<close>

theorem fischer_formula:
  assumes "0 < D" and "0 < a"
  shows "fischer D a contact_angle bulk_visc T =
           Inr (Fin (film_viscosity_spec D a contact_angle bulk_visc T))"
proof (cases "cos (contact_angle * pi / 180) = - 1")
  case True
  have z: "(2 / pi) * np_arctan2 (fischer_d a contact_angle + 2 * a) (3 * a) = 0"
    using c1_arg_bounds(3) [OF assms(2), of contact_angle] True by simp
  have "fischer D a contact_angle bulk_visc T = Inr (Fin 0)"
    using assms True
    by (simp add: fischer_def Let_def fischer_c0_finite fischer_c1_cases np_sub_def)
  moreover have "film_viscosity_spec D a contact_angle bulk_visc T = 0"
    using z by (simp add: film_viscosity_spec_def Let_def fischer_d_def)
  ultimately show ?thesis by simp
next
  case False
  have nz: "- 4 * ln ((2 / pi) * np_arctan2 (fischer_d a contact_angle + 2 * a) (3 * a)) \<noteq> 0"
    using fischer_c1_pos [OF assms(2) False] by linarith
  show ?thesis
    using assms False nz
    by (simp add: fischer_def Let_def fischer_c0_finite fischer_c1_cases np_sub_def
        film_viscosity_spec_def fischer_d_def)
qed

text \<open>The formula at \<open>D = 0.5\<close>, \<open>a = 1\<close>, contact angle 0 and the default arguments.\<close>

theorem fischer_formula_witness:
  "(0::real) < 1 / 2 \<and> (0::real) < 1 \<and>
   fischer (1 / 2) 1 0 default_bulk_visc default_T =
     Inr (Fin (film_viscosity_spec (1 / 2) 1 0 default_bulk_visc default_T))"
  using fischer_formula [of "1 / 2" 1 0 default_bulk_visc default_T] by simp

lemma fischer_at_180:
  assumes "0 < D" and "0 < a"
  shows "fischer D a 180 bulk_visc T = Inr (Fin 0)"
  using assms
  by (simp add: fischer_def Let_def fischer_c0_finite fischer_c1_cases np_sub_def)

lemma fischer_zero_D: "fischer 0 a contact_angle bulk_visc T = Inl ZeroDivisionError"
  by (simp add: fischer_def Let_def)

text \<open>
  The divisor \<open>c1\<close> of \<^verbatim>\<open>fischer\<close> is never zero, for any real radius and contact angle: for
  \<open>a > 0\<close> the argument of the logarithm lies in \<open>[0, 1)\<close>, for \<open>a = 0\<close> it is 0, and for
  \<open>a < 0\<close> it is negative or 2.
\<close>

lemma fischer_c1_never_zero: "fischer_c1 a contact_angle \<noteq> Fin 0"
proof -
  let ?c = "cos (contact_angle * pi / 180)"
  let ?y = "fischer_d a contact_angle + 2 * a"
  have y: "?y = a * (?c + 1)"
    by (simp add: fischer_d_def algebra_simps)
  have c2: "0 \<le> ?c + 1"
    using cos_ge_minus_one [of "contact_angle * pi / 180"] by linarith
  consider "0 < a" | "a = 0" | "a < 0" by linarith
  then show ?thesis
  proof cases
    case 1
    show ?thesis
    proof (cases "?c = - 1")
      case True
      then show ?thesis by (simp add: fischer_c1_cases [OF 1])
    next
      case False
      then show ?thesis
        using fischer_c1_pos [OF 1 False] by (simp add: fischer_c1_cases [OF 1])
    qed
  next
    case 2
    then show ?thesis
      by (simp add: fischer_c1_def Let_def fischer_d_def np_arctan2_def np_log_def signed_inf_def)
  next
    case 3
    have ynp: "?y \<le> 0" unfolding y using 3 c2 by (simp add: mult_nonpos_nonneg)
    show ?thesis
    proof (cases "?y = 0")
      case True
      then have "np_arctan2 ?y (3 * a) = pi" using 3 by (simp add: np_arctan2_def)
      then have "fischer_c1 a contact_angle = Fin (- 4 * ln 2)"
        by (simp add: fischer_c1_def Let_def np_log_def)
      moreover have "ln (2::real) \<noteq> 0" by simp
      ultimately show ?thesis by simp
    next
      case False
      then have yneg: "?y < 0" using ynp by linarith
      have "arctan (?y / (3 * a)) < pi / 2" by (rule arctan_ubound)
      then have "arctan (?y / (3 * a)) - pi < 0"
        using pi_gt_zero by linarith
      then have "np_arctan2 ?y (3 * a) < 0"
        using 3 yneg by (simp add: np_arctan2_def)
      then have "(2 / pi) * np_arctan2 ?y (3 * a) < 0"
        by (intro mult_pos_neg) simp_all
      then show ?thesis
        by (simp add: fischer_c1_def Let_def np_log_def signed_inf_def)
    qed
  qed
qed

text \<open>
  Claim C8, as stated: a contact angle of 90 degrees makes \<open>d = 0\<close>. It does not:
  \<open>cos (pi/2) = 0\<close>, so \<open>d = a * (0 - 1) = - a\<close>; for \<open>a = 1\<close> this is \<open>- 1\<close>.
\<close>

theorem fischer_d_at_90_not_zero: "fischer_d 1 90 \<noteq> 0"
  by (simp add: fischer_d_def)

text \<open>
  Claim C8, amended. For every radius \<open>a\<close>, a contact angle of 90 degrees gives \<open>d = - a\<close>
  (\<open>d = 0\<close> belongs to the contact angle 0). With \<open>D = 0.5\<close>, \<open>a = 1\<close>, \<open>bulk_visc = 1e-3\<close> and
  \<open>T = 298\<close> the divisor \<open>c1 = -4 ln ((2/pi) arctan (1/3))\<close> is finite and positive, and
  \<^verbatim>\<open>fischer\<close> returns the one finite value written out below, without any division by zero.
\<close>

theorem fischer_at_90:
  "fischer_d a 90 = - a \<and>
   fischer_d a 0 = 0 \<and>
   fischer_c1 1 90 = Fin (- 4 * ln ((2 / pi) * arctan (1 / 3))) \<and>
   0 < - 4 * ln ((2 / pi) * arctan (1 / 3)) \<and>
   fischer (1 / 2) 1 90 (1 / 1000) 298 =
     Inr (Fin ((41 / 10 ^ 10 / (1 / 2) - 1 / 10 ^ 9 * (6 * pi * sqrt (tanh (32 / (9 * pi\<^sup>2)))))
               / (- 4 * ln ((2 / pi) * arctan (1 / 3)))))"
proof -
  have d: "fischer_d a 90 = - a" by (simp add: fischer_d_def)
  have d0: "fischer_d a 0 = 0" by (simp add: fischer_d_def)
  have c90: "cos (90 * pi / 180) \<noteq> (- 1::real)" by simp
  have at: "np_arctan2 (fischer_d 1 90 + 2 * 1) (3 * 1) = arctan (1 / 3)"
    by (simp add: np_arctan2_def fischer_d_def)
  have pos: "0 < - 4 * ln ((2 / pi) * arctan (1 / 3))"
    using fischer_c1_pos [of 1 90, OF _ c90] unfolding at by simp
  have c1: "fischer_c1 1 90 = Fin (- 4 * ln ((2 / pi) * arctan (1 / 3)))"
    using fischer_c1_cases [of 1 90] c90 unfolding at by simp
  have nz: "ln ((2 / pi) * arctan (1 / 3)) \<noteq> 0" using pos by auto
  have f: "fischer (1 / 2) 1 90 (1 / 1000) 298 =
     Inr (Fin ((41 / 10 ^ 10 / (1 / 2) - 1 / 10 ^ 9 * (6 * pi * sqrt (tanh (32 / (9 * pi\<^sup>2)))))
               / (- 4 * ln ((2 / pi) * arctan (1 / 3)))))"
    using nz by (simp add: fischer_def Let_def c1 fischer_c0_finite np_sub_def fischer_d_def)
  show ?thesis using d d0 c1 pos f by blast
qed

section \<open>Properties of the array store and of the least-squares fit\<close>

lemma length_setitem [simp]: "length (setitem h r i v) = length h"
  by (simp add: setitem_def)

lemma setitem_overwrite: "setitem (setitem h r i v) r i v' = setitem h r i v'"
  by (cases "r < length h") (simp_all add: setitem_def list_update_beyond)

lemma setitem_update: "r < length h \<Longrightarrow> setitem (h[r := A]) r i v = h[r := A[i := v]]"
  by (simp add: setitem_def)

lemma zip_upt_Suc:
  assumes "m < length xs"
  shows "zip [0..<Suc m] xs = zip [0..<m] xs @ [(m, xs ! m)]"
proof -
  have "zip [0..<Suc m] xs = zip ([0..<m] @ [m]) xs" by simp
  also have "\<dots> = zip [0..<m] (take m xs) @ zip [m] (drop m xs)"
    by (simp add: zip_append1)
  also have "zip [0..<m] (take m xs) = zip [0..<m] xs"
  proof -
    have "zip [0..<m] (take m xs) = take m (zip [0..<m] xs)" by (simp add: take_zip)
    also have "\<dots> = zip [0..<m] xs" by simp
    finally show ?thesis .
  qed
  also have "zip [m] (drop m xs) = [(m, xs ! m)]"
    using assms by (simp add: Cons_nth_drop_Suc [symmetric])
  finally show ?thesis .
qed

lemma foldl_setitem_upto:
  assumes "r < length h" and "m \<le> length xs" and "length (h ! r) = length xs"
  shows "foldl (\<lambda>h (i, x0). setitem h r i (g x0)) h (zip [0..<m] xs)
           = h[r := map g (take m xs) @ drop m (h ! r)]"
  using assms(2)
proof (induction m)
  case 0
  then show ?case by simp
next
  case (Suc m)
  then have m: "m < length xs" by simp
  have m': "m < length (h ! r)" using m assms(3) by simp
  have "(map g (take m xs) @ drop m (h ! r))[m := g (xs ! m)]
          = map g (take m xs) @ (drop m (h ! r))[0 := g (xs ! m)]"
    using m by (simp add: list_update_append)
  also have "(drop m (h ! r))[0 := g (xs ! m)] = g (xs ! m) # drop (Suc m) (h ! r)"
    using m' by (simp add: Cons_nth_drop_Suc [symmetric])
  also have "map g (take m xs) @ g (xs ! m) # drop (Suc m) (h ! r)
          = map g (take (Suc m) xs) @ drop (Suc m) (h ! r)"
    using m by (simp add: take_Suc_conv_app_nth)
  finally have upd: "(map g (take m xs) @ drop m (h ! r))[m := g (xs ! m)]
          = map g (take (Suc m) xs) @ drop (Suc m) (h ! r)" .
  show ?case
    using Suc.IH m assms(1)
    by (simp only: zip_upt_Suc [OF m] foldl_append) (simp add: setitem_update upd)
qed

lemma foldl_setitem_enumerate:
  assumes "r < length h" and "length (h ! r) = length xs"
  shows "foldl (\<lambda>h (i, x0). setitem h r i (g x0)) h (enumerate_list xs) = h[r := map g xs]"
  using foldl_setitem_upto [OF assms(1) order_refl assms(2), of g]
  by (simp add: enumerate_list_def assms(2) [symmetric])

lemma parabolic_spline_regular:
  assumes "width \<noteq> 0"
    and "gram_det logx (map (\<lambda>wi. wi\<^sup>2) (gaussian_weights logx x0 width)) \<noteq> 0"
  shows "\<exists>c b. parabolic_spline logx logf x0 width = Return (c, b, quad_coeff logx logf x0 width)"
  using assms by (simp add: parabolic_spline_def polyfit2_def quad_coeff_def Let_def)

lemma loop_aliased:
  assumes "width \<noteq> 0"
    and "\<forall>(i, x0) \<in> set ps. gram_det logx (map (\<lambda>wi. wi\<^sup>2) (gaussian_weights logx x0 width)) \<noteq> 0"
  shows "log_derivatives_loop logx logf width r r r ps h
           = Return (foldl (\<lambda>h (i, x0). setitem h r i (2 * quad_coeff logx logf x0 width)) h ps)"
  using assms(2)
proof (induction ps arbitrary: h)
  case Nil
  then show ?case by simp
next
  case (Cons p ps)
  obtain i x0 where p: "p = (i, x0)" by (cases p)
  from Cons.prems p
  have reg: "gram_det logx (map (\<lambda>wi. wi\<^sup>2) (gaussian_weights logx x0 width)) \<noteq> 0"
    and rest: "\<forall>(i, x0) \<in> set ps. gram_det logx (map (\<lambda>wi. wi\<^sup>2) (gaussian_weights logx x0 width)) \<noteq> 0"
    by auto
  obtain c b where sp: "parabolic_spline logx logf x0 width = Return (c, b, quad_coeff logx logf x0 width)"
    using parabolic_spline_regular [OF assms(1) reg] by blast
  show ?case
    using Cons.IH [OF rest]
    by (simp add: p sp Let_def setitem_overwrite)
qed

lemma log_derivatives_closed_form:
  assumes "valid_curve x f" and "width \<noteq> 0" and "fits_regular (map ln x) width"
  shows "log_derivatives x f width h =
           Return ((length h, length h, length h),
                   h @ [map (\<lambda>x0. 2 * quad_coeff (map ln x) (map ln f) x0 width) (map ln x)])"
proof -
  have len: "length x = length f" using assms(1) by (simp add: valid_curve_def)
  have pos: "\<not> (\<exists>v \<in> set x \<union> set f. v \<le> 0)"
    using assms(1) by (auto simp add: valid_curve_def not_le)
  have reg: "\<forall>(i, x0) \<in> set (enumerate_list (map ln x)).
               gram_det (map ln x) (map (\<lambda>wi. wi\<^sup>2) (gaussian_weights (map ln x) x0 width)) \<noteq> 0"
    using assms(3) by (auto simp add: fits_regular_def enumerate_list_def dest!: set_zip_rightD)
  let ?h0 = "h @ [replicate (length f) 0]"
  have fold: "foldl (\<lambda>h (i, x0). setitem h (length h0) i (2 * quad_coeff (map ln x) (map ln f) x0 width))
                ?h0 (enumerate_list (map ln x))
              = ?h0 [length h := map (\<lambda>x0. 2 * quad_coeff (map ln x) (map ln f) x0 width) (map ln x)]"
    if "h0 = h" for h0
    using that foldl_setitem_enumerate [of "length h" ?h0 "map ln x"] len by simp
  show ?thesis
    using len pos
    by (simp add: log_derivatives_def zeros_like_def Let_def loop_aliased [OF assms(2) reg] fold)
qed

lemma moment_Nil [simp]: "moment [] W k = 0" "moment x [] k = 0"
  by (simp_all add: moment_def)

lemma moment_Cons [simp]: "moment (u # x) (Wi # W) k = Wi * u ^ k + moment x W k"
  by (simp add: moment_def)

lemma moment_y_Nil [simp]: "moment_y [] y W k = 0" "moment_y x [] W k = 0" "moment_y x y [] k = 0"
  by (simp_all add: moment_y_def)

lemma moment_y_Cons [simp]:
  "moment_y (u # x) (v # y) (Wi # W) k = Wi * u ^ k * v + moment_y x y W k"
  by (simp add: moment_y_def)

lemma moment_y_quadratic:
  "moment_y x (map (\<lambda>u. A * u\<^sup>2 + B * u + C) x) W k
     = C * moment x W k + B * moment x W (Suc k) + A * moment x W (Suc (Suc k))"
proof (induction x arbitrary: W)
  case Nil
  then show ?case by simp
next
  case (Cons u x)
  show ?case
  proof (cases W)
    case Nil
    then show ?thesis by simp
  next
    case (Cons Wi W')
    then show ?thesis
      using Cons.IH [of W'] by (simp add: algebra_simps power2_eq_square)
  qed
qed

lemma cramer_exact:
  fixes S0 S1 S2 S3 S4 :: real
  defines "D \<equiv> det3 S0 S1 S2 S1 S2 S3 S2 S3 S4"
  assumes T0: "T0 = C * S0 + B * S1 + A * S2"
    and T1: "T1 = C * S1 + B * S2 + A * S3"
    and T2: "T2 = C * S2 + B * S3 + A * S4"
  shows "det3 T0 S1 S2 T1 S2 S3 T2 S3 S4 = C * D"
    and "det3 S0 T0 S2 S1 T1 S3 S2 T2 S4 = B * D"
    and "det3 S0 S1 T0 S1 S2 T1 S2 S3 T2 = A * D"
  unfolding D_def T0 T1 T2 det3_def by algebra+

lemma gram_det_three:
  "gram_det [u1, u2, u3] [W1, W2, W3] = W1 * W2 * W3 * ((u2 - u1) * (u3 - u1) * (u3 - u2))\<^sup>2"
  unfolding gram_det_def det3_def by (simp add: power2_eq_square) algebra








lemma quad_coeff_quadratic:
  assumes "gram_det logx (map (\<lambda>wi. wi\<^sup>2) (gaussian_weights logx x0 width)) \<noteq> 0"
  shows "quad_coeff logx (map (\<lambda>u. A * u\<^sup>2 + B * u + C) logx) x0 width = A"
proof -
  let ?W = "map (\<lambda>wi. wi\<^sup>2) (gaussian_weights logx x0 width)"
  let ?Y = "map (\<lambda>u. A * u\<^sup>2 + B * u + C) logx"
  have T: "moment_y logx ?Y ?W k
             = C * moment logx ?W k + B * moment logx ?W (Suc k) + A * moment logx ?W (Suc (Suc k))"
    for k by (rule moment_y_quadratic)
  have T0: "moment_y logx ?Y ?W 0
             = C * moment logx ?W 0 + B * moment logx ?W 1 + A * moment logx ?W 2"
    using T [of 0] by (simp add: eval_nat_numeral)
  have T1: "moment_y logx ?Y ?W 1
             = C * moment logx ?W 1 + B * moment logx ?W 2 + A * moment logx ?W 3"
    using T [of 1] by (simp add: eval_nat_numeral)
  have T2: "moment_y logx ?Y ?W 2
             = C * moment logx ?W 2 + B * moment logx ?W 3 + A * moment logx ?W 4"
    using T [of 2] by (simp add: eval_nat_numeral)
  have "det3 (moment logx ?W 0) (moment logx ?W 1) (moment_y logx ?Y ?W 0)
             (moment logx ?W 1) (moment logx ?W 2) (moment_y logx ?Y ?W 1)
             (moment logx ?W 2) (moment logx ?W 3) (moment_y logx ?Y ?W 2)
        = A * gram_det logx ?W"
    unfolding gram_det_def by (rule cramer_exact(3) [OF T0 T1 T2])
  then show ?thesis
    using assms by (simp add: quad_coeff_def Let_def)
qed




lemma fits_regular_three:
  assumes "u1 \<noteq> u2" and "u1 \<noteq> u3" and "u2 \<noteq> u3"
  shows "fits_regular [u1, u2, u3] width"
  using assms by (simp add: fits_regular_def gaussian_weights_def gram_det_three)

lemma returned_arrays_regular:
  assumes "valid_curve x f" and "width \<noteq> 0" and "fits_regular (map ln x) width"
  shows "returned_arrays (log_derivatives x f width h) =
           (let ys = map (\<lambda>x0. 2 * quad_coeff (map ln x) (map ln f) x0 width) (map ln x)
            in Some (ys, ys, ys))"
  by (simp add: log_derivatives_closed_form [OF assms] returned_arrays_def deref_def Let_def)

lemma map_ext_ln:
  assumes "\<And>v. v \<in> set x \<Longrightarrow> ln (g v) = e (ln v)"
  shows "map ln (map g x) = map e (map ln (x::real list))"
  using assms by (induction x) simp_all






lemma log_derivatives_power_law:
  assumes "\<forall>v \<in> set x. 0 < v" and "0 < k" and "width \<noteq> 0" and "fits_regular (map ln x) width"
  shows "returned_arrays (log_derivatives x (map (\<lambda>v. k * v powr p) x) width h)
           = Some (replicate (length x) 0, replicate (length x) 0, replicate (length x) 0)"
proof -
  have vc: "valid_curve x (map (\<lambda>v. k * v powr p) x)"
    using assms(1,2) by (auto simp add: valid_curve_def intro!: mult_pos_pos)
  have lf: "map ln (map (\<lambda>v. k * v powr p) x) = map (\<lambda>u. 0 * u\<^sup>2 + p * u + ln k) (map ln x)"
  proof (rule map_ext_ln [where g = "\<lambda>v. k * v powr p" and e = "\<lambda>u. 0 * u\<^sup>2 + p * u + ln k"])
    fix v assume "v \<in> set x"
    then have "0 < v" using assms(1) by blast
    then show "ln (k * v powr p) = 0 * (ln v)\<^sup>2 + p * ln v + ln k"
      using assms(2) by (simp add: ln_mult_pos)
  qed
  have q: "quad_coeff (map ln x) (map (\<lambda>u. 0 * u\<^sup>2 + p * u + ln k) (map ln x)) x0 width = 0"
    if "x0 \<in> set (map ln x)" for x0
    using that assms(4) by (intro quad_coeff_quadratic) (auto simp add: fits_regular_def)
  have "map (\<lambda>x0. 2 * quad_coeff (map ln x) (map (\<lambda>u. 0 * u\<^sup>2 + p * u + ln k) (map ln x)) x0 width)
          (map ln x) = replicate (length x) 0"
  proof -
    have "map (\<lambda>x0. 2 * quad_coeff (map ln x) (map (\<lambda>u. 0 * u\<^sup>2 + p * u + ln k) (map ln x)) x0 width)
            (map ln x) = map (\<lambda>_. 0) (map ln x)"
      by (rule map_cong [OF refl]) (simp only: q mult_zero_right)
    then show ?thesis by (simp only: map_replicate_const length_map)
  qed
  then show ?thesis
    by (simp only: returned_arrays_regular [OF vc assms(3,4)] lf Let_def)
qed

lemma parabolic_spline_quadratic:
  assumes "width \<noteq> 0"
    and "gram_det logx (map (\<lambda>wi. wi\<^sup>2) (gaussian_weights logx x0 width)) \<noteq> 0"
  shows "parabolic_spline logx (map (\<lambda>u. A * u\<^sup>2 + B * u + C) logx) x0 width = Return (C, B, A)"
proof -
  let ?W = "map (\<lambda>wi. wi\<^sup>2) (gaussian_weights logx x0 width)"
  let ?Y = "map (\<lambda>u. A * u\<^sup>2 + B * u + C) logx"
  have T: "moment_y logx ?Y ?W k
             = C * moment logx ?W k + B * moment logx ?W (Suc k) + A * moment logx ?W (Suc (Suc k))"
    for k by (rule moment_y_quadratic)
  have T0: "moment_y logx ?Y ?W 0
             = C * moment logx ?W 0 + B * moment logx ?W 1 + A * moment logx ?W 2"
    using T [of 0] by (simp add: eval_nat_numeral)
  have T1: "moment_y logx ?Y ?W 1
             = C * moment logx ?W 1 + B * moment logx ?W 2 + A * moment logx ?W 3"
    using T [of 1] by (simp add: eval_nat_numeral)
  have T2: "moment_y logx ?Y ?W 2
             = C * moment logx ?W 2 + B * moment logx ?W 3 + A * moment logx ?W 4"
    using T [of 2] by (simp add: eval_nat_numeral)
  note cr = cramer_exact [OF T0 T1 T2, folded gram_det_def]
  show ?thesis
    unfolding parabolic_spline_def polyfit2_def Let_def
    by (simp only: cr) (use assms in simp)
qed

lemma returned_arrays_quadratic:
  assumes "valid_curve x f" and "width \<noteq> 0" and "fits_regular (map ln x) width"
    and "map ln f = map (\<lambda>u. A * u\<^sup>2 + B * u + C) (map ln x)"
  shows "log_derivatives x f width h =
           Return ((length h, length h, length h), h @ [replicate (length x) (2 * A)])"
proof -
  have q: "quad_coeff (map ln x) (map (\<lambda>u. A * u\<^sup>2 + B * u + C) (map ln x)) x0 width = A"
    if "x0 \<in> set (map ln x)" for x0
    using that assms(3) by (intro quad_coeff_quadratic) (auto simp add: fits_regular_def)
  have "map (\<lambda>x0. 2 * quad_coeff (map ln x) (map (\<lambda>u. A * u\<^sup>2 + B * u + C) (map ln x)) x0 width)
          (map ln x) = map (\<lambda>_. 2 * A) (map ln x)"
    by (rule map_cong [OF refl]) (simp only: q)
  then have "map (\<lambda>x0. 2 * quad_coeff (map ln x) (map (\<lambda>u. A * u\<^sup>2 + B * u + C) (map ln x)) x0 width)
          (map ln x) = replicate (length x) (2 * A)"
    by (simp only: map_replicate_const length_map)
  then show ?thesis
    by (simp only: log_derivatives_closed_form [OF assms(1,2,3)] assms(4))
qed

lemma example_valid: "valid_curve [1, exp 1, exp 2] [1, exp 1, exp 4]"
  by (simp add: valid_curve_def)

lemma example_regular: "fits_regular (map ln [1, exp 1, exp 2]) width"
  by (simp add: fits_regular_three)

lemma example_logs:
  "map ln [1, exp 1, exp 4 :: real] = map (\<lambda>u. 1 * u\<^sup>2 + 0 * u + 0) (map ln [1, exp 1, exp 2])"
  by simp

lemma example_first_pass:
  "log_derivatives [1, exp 1, exp 2] [1, exp 1, exp 4] default_width [] =
     Return ((0, 0, 0), [[2, 2, 2]])"
proof -
  have w: "default_width \<noteq> 0" by (simp add: default_width_def)
  show ?thesis
    using returned_arrays_quadratic [OF example_valid w example_regular example_logs, of "[]"]
    by (simp add: eval_nat_numeral)
qed

lemma example_second_pass:
  assumes "0 < K"
  shows "log_derivatives [1, 1 / exp 1, 1 / exp 2] [K, K, K] default_width [[2, 2, 2]] =
     Return ((1, 1, 1), [[2, 2, 2], [0, 0, 0]])"
proof -
  have w: "default_width \<noteq> 0" by (simp add: default_width_def)
  have v: "valid_curve [1, 1 / exp 1, 1 / exp 2] [K, K, K]"
    using assms by (simp add: valid_curve_def)
  have lx: "map ln [1, 1 / exp 1, 1 / exp 2 :: real] = [0, - 1, - 2]"
    by (simp add: ln_div)
  have r: "fits_regular (map ln [1, 1 / exp 1, 1 / exp 2]) default_width"
    unfolding lx by (simp add: fits_regular_three)
  have l: "map ln [K, K, K] = map (\<lambda>u. 0 * u\<^sup>2 + 0 * u + ln K) (map ln [1, 1 / exp 1, 1 / exp 2])"
    by simp
  show ?thesis
    using returned_arrays_quadratic [OF v w r l, of "[[2, 2, 2]]"]
    by (simp add: eval_nat_numeral)
qed

lemma example_gse_body:
  assumes "gamma 3 = 2"
  shows "gse_body gamma [1, exp 1, exp 2] [1, exp 1, exp 4] 1 298 clip width =
     Return \<lparr>l_w = [1, 1 / exp 1, 1 / exp 2],
             l_f = [2, 2, 2], l_df = [2, 2, 2], l_ddf = [2, 2, 2],
             l_G_s = [41 / (12 * 10 ^ 10 * pi), 41 / (12 * 10 ^ 10 * pi), 41 / (12 * 10 ^ 10 * pi)],
             l_g = [0, 0, 0], l_dg = [0, 0, 0], l_ddg = [0, 0, 0],
             l_Gp = [0, 0, 0], l_Gpp = [0, 0, 0],
             l_log = [Warning_MSD 2]\<rparr>"
proof -
  have K: "(0::real) < 41 / (12 * 10 ^ 10 * pi)" by simp
  note second = example_second_pass [OF K]
  show ?thesis
    using assms second
    by (simp add: gse_body_def Let_def example_first_pass deref_def G_s_divisor_def gamma_pole_def
        Gp_entry_def Gpp_entry_def)
qed

lemma loop_Return_lengths:
  assumes "log_derivatives_loop logx logf width r r r ps h = Return h'"
  shows "length h' = length h \<and> length (deref h' r) = length (deref h r)"
  using assms
proof (induction ps arbitrary: h)
  case Nil
  then show ?case by simp
next
  case (Cons p ps)
  obtain i x0 where p: "p = (i, x0)" by (cases p)
  from Cons.prems obtain c b a where
    sp: "parabolic_spline logx logf x0 width = Return (c, b, a)"
    and rest: "log_derivatives_loop logx logf width r r r ps (setitem h r i (2 * a)) = Return h'"
    by (auto simp add: p Let_def setitem_overwrite split: outcome.splits)
  have "length (deref (setitem h r i (2 * a)) r) = length (deref h r)"
    by (cases "r < length h") (simp_all add: setitem_def deref_def list_update_beyond)
  then show ?case
    using Cons.IH [OF rest] by simp
qed

lemma log_derivatives_Return:
  assumes "log_derivatives x f width h = Return ((sf, df, ddf), h')"
  shows "sf = df \<and> df = ddf \<and> length x = length f \<and> length (deref h' sf) = length f"
proof -
  from assms have len: "length x = length f"
    by (auto simp add: log_derivatives_def split: if_splits)
  from assms have
    loop: "log_derivatives_loop (map ln x) (map ln f) width (length h) (length h) (length h)
             (enumerate_list (map ln x)) (h @ [replicate (length f) 0]) = Return h'"
    and refs: "sf = length h" "df = length h" "ddf = length h"
    by (auto simp add: log_derivatives_def zeros_like_def Let_def split: if_splits outcome.splits)
  from loop_Return_lengths [OF loop] have "length (deref h' (length h)) = length f"
    by (simp add: deref_def)
  then show ?thesis using refs len by simp
qed

lemma gse_body_Return:
  assumes "gse_body gamma t r2 a T clip width = Return L"
  shows "l_f L = l_df L \<and> l_df L = l_ddf L \<and> l_g L = l_dg L \<and> l_dg L = l_ddg L
         \<and> length (l_Gp L) = length (l_G_s L) \<and> length (l_Gpp L) = length (l_G_s L)"
proof -
  from assms obtain f_ref df_ref ddf_ref h1 where
    first: "log_derivatives t r2 default_width [] = Return ((f_ref, df_ref, ddf_ref), h1)"
    by (auto simp add: gse_body_def Let_def split: if_splits outcome.splits)
  note r1 = log_derivatives_Return [OF first]
  let ?f = "deref h1 f_ref"
  let ?G_s = "map (\<lambda>e. (2 / 3) * (41 / 10 ^ 10 * T / 298) / (pi * a) / G_s_divisor gamma e)
                (zip ?f (zip ?f ?f))"
  from assms first r1 obtain g_ref dg_ref ddg_ref h2 where
    second: "log_derivatives (map (\<lambda>ti. 1 / ti) t) ?G_s default_width h1
               = Return ((g_ref, dg_ref, ddg_ref), h2)"
    by (auto simp add: gse_body_def Let_def split: if_splits outcome.splits sum.splits)
  note r2 = log_derivatives_Return [OF second]
  from assms first second r1 r2 show ?thesis
    by (auto simp add: gse_body_def Let_def split: if_splits outcome.splits sum.splits)
qed

lemma clip_effect:
  assumes "length G = length G_s" and "i < length G"
  shows "(if any_small clip G_s G then clip_small clip G_s G else G) ! i
           = (if G ! i < clip * G_s ! i then 0 else G ! i)"
proof (cases "any_small clip G_s G")
  case True
  then show ?thesis using assms by (simp add: clip_small_def)
next
  case False
  have "(G ! i, G_s ! i) \<in> set (zip G G_s)"
    using assms by (auto simp add: set_zip)
  with False have "\<not> G ! i < clip * G_s ! i"
    by (auto simp add: any_small_def)
  with False show ?thesis by simp
qed

lemma clip_length:
  assumes "length G = length G_s"
  shows "length (if any_small clip G_s G then clip_small clip G_s G else G) = length G"
  using assms by (simp add: clip_small_def)

section \<open>Properties of \<^verbatim>\<open>log_derivatives\<close>\<close>

lemma loop_entries:
  assumes "log_derivatives_loop logx logf width r r r ps h = Return h'"
  shows "(\<forall>j. j \<notin> fst ` set ps \<longrightarrow> deref h' r ! j = deref h r ! j)
       \<and> (distinct (map fst ps) \<longrightarrow>
            (\<forall>(i, x0) \<in> set ps. r < length h \<longrightarrow> i < length (deref h r) \<longrightarrow>
               (\<exists>c b a. parabolic_spline logx logf x0 width = Return (c, b, a)
                  \<and> deref h' r ! i = 2 * a)))"
  using assms
proof (induction ps arbitrary: h)
  case Nil
  then show ?case by simp
next
  case (Cons p ps)
  obtain i x0 where p: "p = (i, x0)" by (cases p)
  from Cons.prems obtain c b a where
    sp: "parabolic_spline logx logf x0 width = Return (c, b, a)"
    and rest: "log_derivatives_loop logx logf width r r r ps (setitem h r i (2 * a)) = Return h'"
    by (auto simp add: p Let_def setitem_overwrite split: outcome.splits)
  let ?h = "setitem h r i (2 * a)"
  note IH = Cons.IH [OF rest]
  have other: "deref ?h r ! j = deref h r ! j" if "j \<noteq> i" for j
    using that by (cases "r < length h") (simp_all add: setitem_def deref_def list_update_beyond)
  have here: "deref ?h r ! i = 2 * a" if "r < length h" "i < length (deref h r)"
    using that by (simp add: setitem_def deref_def)
  have len: "length (deref ?h r) = length (deref h r)"
    by (cases "r < length h") (simp_all add: setitem_def deref_def list_update_beyond)
  show ?case
  proof (intro conjI allI impI)
    fix j assume "j \<notin> fst ` set (p # ps)"
    then have "j \<noteq> i" and "j \<notin> fst ` set ps" by (auto simp add: p)
    then show "deref h' r ! j = deref h r ! j" using IH other by simp
  next
    assume d: "distinct (map fst (p # ps))"
    then have notin: "i \<notin> fst ` set ps" and d': "distinct (map fst ps)" by (auto simp add: p)
    show "\<forall>(i, x0) \<in> set (p # ps). r < length h \<longrightarrow> i < length (deref h r) \<longrightarrow>
             (\<exists>c b a. parabolic_spline logx logf x0 width = Return (c, b, a)
                \<and> deref h' r ! i = 2 * a)"
    proof (clarify)
      fix j x1 assume mem: "(j, x1) \<in> set (p # ps)" and r: "r < length h"
        and j: "j < length (deref h r)"
      show "\<exists>c b a. parabolic_spline logx logf x1 width = Return (c, b, a)
                \<and> deref h' r ! j = 2 * a"
      proof (cases "(j, x1) = (i, x0)")
        case True
        then have "deref h' r ! j = 2 * a"
          using IH notin here [OF r] j by auto
        then show ?thesis using True sp by auto
      next
        case False
        then have "(j, x1) \<in> set ps" using mem p by auto
        then show ?thesis using IH d' r j len by fastforce
      qed
    qed
  qed
qed

lemma enumerate_list_props:
  "distinct (map fst (enumerate_list xs))"
  "i < length xs \<Longrightarrow> (i, xs ! i) \<in> set (enumerate_list xs)"
proof -
  show "distinct (map fst (enumerate_list xs))"
    by (simp add: enumerate_list_def)
  show "(i, xs ! i) \<in> set (enumerate_list xs)" if "i < length xs"
    unfolding enumerate_list_def set_zip using that by (intro CollectI exI [of _ i]) simp
qed

lemma log_derivatives_Return_entries:
  assumes "log_derivatives x f width h = Return ((sf, df, ddf), h')" and "i < length x"
  shows "\<exists>c b a. parabolic_spline (map ln x) (map ln f) (ln (x ! i)) width = Return (c, b, a)
           \<and> deref h' ddf ! i = 2 * a"
proof -
  from assms(1) have len: "length x = length f"
    by (auto simp add: log_derivatives_def split: if_splits)
  from assms(1) have
    loop: "log_derivatives_loop (map ln x) (map ln f) width (length h) (length h) (length h)
             (enumerate_list (map ln x)) (h @ [replicate (length f) 0]) = Return h'"
    and refs: "ddf = length h"
    by (auto simp add: log_derivatives_def zeros_like_def Let_def split: if_splits outcome.splits)
  have mem: "(i, ln (x ! i)) \<in> set (enumerate_list (map ln x))"
    using enumerate_list_props(2) [of i "map ln x"] assms(2) by simp
  from loop_entries [OF loop] enumerate_list_props(1) [of "map ln x"] mem
  have "length h < length (h @ [replicate (length f) 0]) \<longrightarrow>
        i < length (deref (h @ [replicate (length f) 0]) (length h)) \<longrightarrow>
        (\<exists>c b a. parabolic_spline (map ln x) (map ln f) (ln (x ! i)) width = Return (c, b, a)
           \<and> deref h' (length h) ! i = 2 * a)"
    by fastforce
  then show ?thesis
    using assms(2) len refs by (simp add: deref_def)
qed

text \<open>
  Claim C2. For a valid curve whose local fits are all regular, \<^verbatim>\<open>log_derivatives\<close> returns, and
  it returns one reference three times. Whenever it returns, the smoothed values, the first and
  the second log-derivative are one shared array: each iteration writes the three results in
  turn into the same cell, so the last one stays, and the entry at every index \<open>i\<close> is \<open>2 * a\<close>,
  with \<open>a\<close> the quadratic coefficient of the fit around \<open>ln (x ! i)\<close>. In \<^verbatim>\<open>gse\<close> the locals \<open>f\<close>,
  \<open>df\<close>, \<open>ddf\<close> are therefore equal, and so are \<open>g\<close>, \<open>dg\<close>, \<open>ddg\<close>.
\<close>

theorem log_derivatives_shared_array:
  "(valid_curve x f \<longrightarrow> width \<noteq> 0 \<longrightarrow> fits_regular (map ln x) width \<longrightarrow>
      (\<exists>r h'. log_derivatives x f width h = Return ((r, r, r), h')))
   \<and> (log_derivatives x f width h = Return ((smooth_f, df, ddf), h') \<longrightarrow>
        smooth_f = df \<and> df = ddf \<and> length (deref h' ddf) = length x
        \<and> (\<forall>i < length x. \<exists>c b a.
              parabolic_spline (map ln x) (map ln f) (ln (x ! i)) width = Return (c, b, a)
              \<and> deref h' smooth_f ! i = 2 * a \<and> deref h' df ! i = 2 * a
              \<and> deref h' ddf ! i = 2 * a))
   \<and> (gse_body gamma t r2 a T clip w = Return L \<longrightarrow>
        l_f L = l_df L \<and> l_df L = l_ddf L \<and> l_g L = l_dg L \<and> l_dg L = l_ddg L)"
proof (intro conjI; (intro impI)?)
  assume vc: "valid_curve x f" and w: "width \<noteq> 0" and reg: "fits_regular (map ln x) width"
  show "\<exists>r h'. log_derivatives x f width h = Return ((r, r, r), h')"
    using log_derivatives_closed_form [OF vc w reg, of h] by blast
next
  assume ret: "log_derivatives x f width h = Return ((smooth_f, df, ddf), h')"
  note refs = log_derivatives_Return [OF ret]
  note fit = log_derivatives_Return_entries [OF ret]
  show "smooth_f = df \<and> df = ddf \<and> length (deref h' ddf) = length x
        \<and> (\<forall>i < length x. \<exists>c b a.
              parabolic_spline (map ln x) (map ln f) (ln (x ! i)) width = Return (c, b, a)
              \<and> deref h' smooth_f ! i = 2 * a \<and> deref h' df ! i = 2 * a
              \<and> deref h' ddf ! i = 2 * a)"
    using refs fit by auto
next
  assume "gse_body gamma t r2 a T clip w = Return L"
  from gse_body_Return [OF this]
  show "l_f L = l_df L \<and> l_df L = l_ddf L \<and> l_g L = l_dg L \<and> l_dg L = l_ddg L" by simp
qed

text \<open>The curve \<open>x = [1, e, e\<^sup>2]\<close>, \<open>f = [1, e, e\<^sup>4]\<close>, that is \<open>ln f = (ln x)\<^sup>2\<close>: every fit is
  \<open>(c, b, a) = (0, 0, 1)\<close> and the shared array is \<open>[2, 2, 2]\<close>.\<close>

theorem log_derivatives_shared_array_witness:
  "valid_curve [1, exp 1, exp 2] [1, exp 1, exp 4] \<and> default_width \<noteq> 0
   \<and> fits_regular (map ln [1, exp 1, exp 2]) default_width
   \<and> log_derivatives [1, exp 1, exp 2] [1, exp 1, exp 4] default_width [] = Return ((0, 0, 0), [[2, 2, 2]])
   \<and> (\<exists>c b a.
         parabolic_spline (map ln [1, exp 1, exp 2]) (map ln [1, exp 1, exp 4])
           (ln ([1, exp 1, exp 2] ! 2)) default_width = Return (c, b, a)
         \<and> deref [[2, 2, 2]] 0 ! 2 = 2 * a)
   \<and> (\<exists>L. gse_body (\<lambda>z. 2) [1, exp 1, exp 2] [1, exp 1, exp 4] 1 298 default_clip default_width
              = Return L
            \<and> l_f L = l_df L \<and> l_df L = l_ddf L \<and> l_g L = l_dg L \<and> l_dg L = l_ddg L)"
proof -
  have w: "default_width \<noteq> 0" by (simp add: default_width_def)
  have g: "(\<lambda>z::real. 2::real) 3 = 2" by simp
  note body = example_gse_body [of "\<lambda>z. 2" default_clip default_width, OF g]
  note inst = log_derivatives_shared_array [of "[1, exp 1, exp 2]" "[1, exp 1, exp 4]" default_width "[]"
        0 0 0 "[[2, 2, 2]]"
        "\<lambda>z. 2" "[1, exp 1, exp 2]" "[1, exp 1, exp 4]" 1 298 default_clip default_width]
  from inst example_first_pass
  have all: "\<forall>i < length [1, exp 1, exp 2 :: real]. \<exists>c b a.
         parabolic_spline (map ln [1, exp 1, exp 2]) (map ln [1, exp 1, exp 4])
           (ln ([1, exp 1, exp 2] ! i)) default_width = Return (c, b, a)
         \<and> deref [[2, 2, 2]] 0 ! i = 2 * a"
    by blast
  have at2: "\<exists>c b a.
         parabolic_spline (map ln [1, exp 1, exp 2]) (map ln [1, exp 1, exp 4])
           (ln ([1, exp 1, exp 2] ! 2)) default_width = Return (c, b, a)
         \<and> deref [[2, 2, 2]] 0 ! 2 = 2 * a"
    using all [rule_format, of 2] by simp
  from inst body
  have gs: "\<exists>L. gse_body (\<lambda>z. 2) [1, exp 1, exp 2] [1, exp 1, exp 4] 1 298 default_clip default_width
              = Return L
            \<and> l_f L = l_df L \<and> l_df L = l_ddf L \<and> l_g L = l_dg L \<and> l_dg L = l_ddg L"
    by blast
  show ?thesis
    using example_valid w example_regular [of default_width] example_first_pass at2 gs
    by blast
qed

text \<open>
  Claim C1 asks for the smoothed value \<open>exp (a*u0\<^sup>2 + b*u0 + c)\<close>, the first log-derivative
  \<open>2*a*u0 + b\<close> and the second log-derivative \<open>2*a\<close>. On \<open>x = [1, e, e\<^sup>2]\<close>, \<open>f = [1, e, e\<^sup>4]\<close>
  the fit at index 0 (\<open>u0 = 0\<close>) is \<open>(c, b, a) = (0, 0, 1)\<close>, so these are 1, 0 and 2; the code
  returns 2 in all three sequences, at every index.
\<close>

theorem log_derivatives_parabola_example:
  "parabolic_spline (map ln [1, exp 1, exp 2]) (map ln [1, exp 1, exp 4]) (ln ([1, exp 1, exp 2] ! 0))
       default_width = Return (0, 0, 1)
   \<and> returned_arrays (log_derivatives [1, exp 1, exp 2] [1, exp 1, exp 4] default_width [])
       = Some ([2, 2, 2], [2, 2, 2], [2, 2, 2])"
proof -
  have w: "default_width \<noteq> 0" by (simp add: default_width_def)
  have d: "gram_det (map ln [1, exp 1, exp 2])
             (map (\<lambda>wi. wi\<^sup>2) (gaussian_weights (map ln [1, exp 1, exp 2]) 0 default_width)) \<noteq> 0"
    using example_regular [of default_width] by (simp add: fits_regular_def)
  have "parabolic_spline (map ln [1, exp 1, exp 2])
          (map (\<lambda>u. 1 * u\<^sup>2 + 0 * u + 0) (map ln [1, exp 1, exp 2])) 0 default_width = Return (0, 0, 1)"
    by (rule parabolic_spline_quadratic [OF w d])
  then show ?thesis
    by (simp add: example_first_pass returned_arrays_def deref_def)
qed

text \<open>
  Claim C3 asks for the first log-derivative \<open>p\<close> and the second log-derivative 0 on a power
  law. On \<open>f = 2 * x\<^sup>3\<close> sampled at \<open>x = [1, e, e\<^sup>2]\<close> the code returns 0 in all three
  sequences: the second log-derivative is right, the first is 0 where 3 is expected.
\<close>

theorem log_derivatives_power_law_example:
  "returned_arrays (log_derivatives [1, exp 1, exp 2] (map (\<lambda>v. 2 * v powr 3) [1, exp 1, exp 2])
       default_width [])
     = Some ([0, 0, 0], [0, 0, 0], [0, 0, 0])"
proof -
  have w: "default_width \<noteq> 0" by (simp add: default_width_def)
  have p: "\<forall>v \<in> set [1, exp 1, exp 2 :: real]. 0 < v" by simp
  show ?thesis
    using log_derivatives_power_law [OF p _ w example_regular, of 2 3 "[]"]
    by (simp add: eval_nat_numeral)
qed

subsection \<open>Curves with fewer than three distinct abscissae\<close>

lemma gram_det_one: "gram_det [u] [W] = 0"
  unfolding gram_det_def det3_def by simp algebra


lemma polyfit2_single:
  assumes "w \<noteq> 0" and "u \<noteq> 0"
  shows "polyfit2 [u] [y] [w] = Return (y / 3, y / (3 * u), y / (3 * u\<^sup>2))"
proof -
  have W: "w\<^sup>2 \<noteq> 0" using assms(1) by simp
  have s: "support [u] [w\<^sup>2] = [u]" using W by (simp add: support_def)
  have m: "group_mean [u] [y] [w\<^sup>2] u = y" using W by (simp add: group_mean_def)
  have c0: "column_norm2 [u] [w\<^sup>2] 0 = w\<^sup>2" using W by (simp add: column_norm2_def)
  have c1: "column_norm2 [u] [w\<^sup>2] (Suc 0) = w\<^sup>2 * u\<^sup>2"
    using W assms(2) by (simp add: column_norm2_def)
  have c2: "column_norm2 [u] [w\<^sup>2] 2 = w\<^sup>2 * u ^ 4"
    using W assms(2) by (simp add: column_norm2_def)
  have n: "1 / w\<^sup>2 + 1 / (w\<^sup>2 * u\<^sup>2) * u\<^sup>2 + 1 / (w\<^sup>2 * u ^ 4) * u ^ 4 = 3 / w\<^sup>2"
    using W assms(2) by (simp add: field_simps)
  have "min_norm_fit [u] [y] [w\<^sup>2] = Return (y / 3, y / (3 * u), y / (3 * u\<^sup>2))"
    unfolding min_norm_fit_def s
    using W assms(2)
    by (simp add: Let_def m c0 c1 c2 n) (simp add: field_simps power2_eq_square power4_eq_xxxx)
  then show ?thesis
    by (simp add: polyfit2_def Let_def gram_det_one)
qed

lemma log_derivatives_single:
  assumes "0 < x" and "0 < f" and "ln x \<noteq> 0" and "width \<noteq> 0"
  shows "log_derivatives [x] [f] width h =
           Return ((length h, length h, length h), h @ [[2 * (ln f / (3 * (ln x)\<^sup>2))]])"
proof -
  have sp: "parabolic_spline [ln x] [ln f] (ln x) width
              = Return (ln f / 3, ln f / (3 * ln x), ln f / (3 * (ln x)\<^sup>2))"
    using assms(4) polyfit2_single [of 1 "ln x" "ln f", OF _ assms(3)]
    by (simp add: parabolic_spline_def gaussian_weights_def)
  show ?thesis
    using assms(1,2)
    by (simp add: log_derivatives_def zeros_like_def enumerate_list_def Let_def sp setitem_def)
qed








text \<open>
  Claim C9, as stated: mismatched lengths do not abort before the logarithms are taken. They
  do: the assertion is the first statement of \<^verbatim>\<open>log_derivatives\<close>.
\<close>

theorem log_derivatives_asserts_lengths: "log_derivatives [1, 2] [1] default_width [] = Raise AssertionError"
  by (simp add: log_derivatives_def)

text \<open>
  Claim C9, amended. There is no check of positivity: with equal lengths, a value that is not
  positive reaches \<^verbatim>\<open>np.log\<close>, which yields nan or minus infinity and raises nothing. The
  lengths are checked: \<^verbatim>\<open>log_derivatives\<close> raises \<^verbatim>\<open>AssertionError\<close> on mismatched lengths before
  any logarithm, and so does \<^verbatim>\<open>gse\<close>, after its elementwise \<open>1/t\<close>, whatever \<open>t\<close> holds.
\<close>

theorem no_positivity_check:
  "(length x \<noteq> length f \<longrightarrow> log_derivatives x f width h = Raise AssertionError)
   \<and> (length x = length f \<longrightarrow> (\<exists>v \<in> set x \<union> set f. v \<le> 0) \<longrightarrow>
        log_derivatives x f width h = NonFinite)
   \<and> (length t \<noteq> length r2 \<longrightarrow> gse gamma t r2 a T clip width' = Raise AssertionError)
   \<and> (length t = length r2 \<longrightarrow> (\<exists>v \<in> set t \<union> set r2. v \<le> 0) \<longrightarrow>
        gse gamma t r2 a T clip width' = NonFinite)"
  by (simp add: log_derivatives_def gse_def gse_body_def Let_def)


text \<open>Lengths 2 and 1, with and without a zero in \<open>t\<close>, and a curve holding \<open>- 2\<close> and 0.\<close>

theorem no_positivity_check_witness:
  "length [1, 2 :: real] \<noteq> length [1 :: real]
   \<and> log_derivatives [1, 2] [1] default_width [] = Raise AssertionError
   \<and> length [1, - 2 :: real] = length [1, 0 :: real] \<and> (\<exists>v \<in> set [1, - 2] \<union> set [1, 0 :: real]. v \<le> 0)
   \<and> log_derivatives [1, - 2] [1, 0] default_width [] = NonFinite
   \<and> length [0, 1 :: real] \<noteq> length [1 :: real]
   \<and> gse (\<lambda>z. 2) [0, 1] [1] 1 298 default_clip default_width = Raise AssertionError
   \<and> gse (\<lambda>z. 2) [1, - 2] [1, 0] 1 298 default_clip default_width = NonFinite"
  using no_positivity_check [of "[1, 2]" "[1]" default_width "[]" "[0, 1]" "[1]" "\<lambda>z. 2" 1 298
      default_clip default_width]
    no_positivity_check [of "[1, - 2]" "[1, 0]" default_width "[]" "[1, - 2]" "[1, 0]" "\<lambda>z. 2" 1 298
      default_clip default_width]
  by simp

section \<open>Properties of \<^verbatim>\<open>gse\<close>\<close>

text \<open>
  Claim C4 asks that both smoothing passes of \<^verbatim>\<open>gse\<close> use the caller's \<open>width\<close>. The code
  accepts the argument and never reads it: both passes run with the default 0.7, so the
  result does not depend on \<open>width\<close>.
\<close>

theorem gse_ignores_width:
  "gse gamma t r2 a T clip width = gse gamma t r2 a T clip default_width
   \<and> gse_body gamma t r2 a T clip width = gse_body gamma t r2 a T clip default_width"
  by (simp add: gse_def gse_body_def)

text \<open>With \<open>width = 0\<close> a smoothing pass has nan weights; \<^verbatim>\<open>gse\<close> called with \<open>width = 0\<close>
  returns all the same.\<close>

lemma gse_width_zero_example:
  assumes "gamma 3 = 2"
  shows "log_derivatives [1, exp 1, exp 2] [1, exp 1, exp 4] 0 [] = NonFinite"
    and "\<exists>L. gse_body gamma [1, exp 1, exp 2] [1, exp 1, exp 4] 1 298 default_clip 0 = Return L
              \<and> l_f L = [2, 2, 2]"
proof -
  show "log_derivatives [1, exp 1, exp 2] [1, exp 1, exp 4] 0 [] = NonFinite"
    by (simp add: log_derivatives_def zeros_like_def enumerate_list_def parabolic_spline_def
        upt_rec [of 0])
  show "\<exists>L. gse_body gamma [1, exp 1, exp 2] [1, exp 1, exp 4] 1 298 default_clip 0 = Return L
              \<and> l_f L = [2, 2, 2]"
    by (simp add: example_gse_body [of gamma default_clip 0, OF assms])
qed

lemma pi_ge_three: "3 \<le> pi"
  using sin_x_le_x [of "pi / 6"] sin_30 by simp

lemma G_s_example_bound: "ln (41 / (12 * 10 ^ 10 * pi)) < - 3"
proof -
  have "exp (3::real) = exp 1 ^ 3"
    using exp_of_nat_mult [of 3 "1::real"] by simp
  also have "\<dots> \<le> 3 ^ 3"
    by (rule power_mono) (simp_all add: exp_le)
  finally have e3: "exp (3::real) \<le> 27" by simp
  have "41 / (12 * 10 ^ 10 * pi) < 1 / 27"
    using pi_ge_three by (simp add: field_simps)
  also have "1 / 27 \<le> 1 / exp (3::real)"
    using e3 by (simp add: field_simps)
  also have "\<dots> = exp (- 3)" by (simp add: exp_minus field_simps)
  finally have "41 / (12 * 10 ^ 10 * pi) < exp (- 3)" .
  then have "ln (41 / (12 * 10 ^ 10 * pi)) < ln (exp (- 3))"
    by (subst ln_less_cancel_iff) simp_all
  then show ?thesis by simp
qed

lemma moduli_far_below_minus_one:
  assumes "v < - 2"
  shows "Gp_entry (v, v, v) < 0" and "2 < Gpp_entry (v, v, v)"
proof -
  have d: "1 + v < 0" using assms by simp
  have "v < 1 + v" by simp
  then have r: "1 < v / (1 + v)" using d by (simp add: field_simps)
  have h: "1 / 2 \<le> pi / 2 - 1" using pi_ge_three by simp
  have "2 * 2 < (- v) * (- v)"
    using assms by (intro mult_strict_mono) simp_all
  then have sq: "4 < v * v" by simp
  have "1 / 2 * 4 < (pi / 2 - 1) * (v * v)"
    using h sq by (intro mult_le_less_imp_less) simp_all
  then have "2 < (pi / 2 - 1) * v * v" by (simp add: mult.assoc)
  then have "cos (pi / 2 * v) - (pi / 2 - 1) * v * v < - 1"
    using cos_le_one [of "pi / 2 * v"] by linarith
  then have "v / (1 + v) * (cos (pi / 2 * v) - (pi / 2 - 1) * v * v) < 0"
    using r by (intro mult_pos_neg) simp_all
  then show "Gp_entry (v, v, v) < 0" by (simp add: Gp_entry_def)
  have "3 * 2 < (1 - v) * (- v)"
    using assms by (intro mult_strict_mono) simp_all
  then have pr: "6 < (1 - v) * (- v)" by simp
  have "1 / 2 * 6 < (pi / 2 - 1) * ((1 - v) * (- v))"
    using h pr by (intro mult_le_less_imp_less) simp_all
  then have "3 < - ((pi / 2 - 1) * (1 - v) * v)" by (simp add: mult.assoc)
  then have F: "2 < sin (pi / 2 * v) - (pi / 2 - 1) * (1 - v) * v"
    using sin_ge_minus_one [of "pi / 2 * v"] by linarith
  have "1 * 2 < v / (1 + v) * (sin (pi / 2 * v) - (pi / 2 - 1) * (1 - v) * v)"
    using r F by (intro mult_strict_mono) simp_all
  then show "2 < Gpp_entry (v, v, v)" by (simp add: Gpp_entry_def)
qed

lemma example_single_gse_body:
  assumes "gamma 3 = 2"
  shows "gse_body gamma [exp 1] [exp 3] 1 298 clip width =
     Return \<lparr>l_w = [1 / exp 1],
             l_f = [2], l_df = [2], l_ddf = [2],
             l_G_s = [41 / (12 * 10 ^ 10 * pi)],
             l_g = [2 * (ln (41 / (12 * 10 ^ 10 * pi)) / 3)],
             l_dg = [2 * (ln (41 / (12 * 10 ^ 10 * pi)) / 3)],
             l_ddg = [2 * (ln (41 / (12 * 10 ^ 10 * pi)) / 3)],
             l_Gp = [Gp_entry (2 * (ln (41 / (12 * 10 ^ 10 * pi)) / 3),
                       2 * (ln (41 / (12 * 10 ^ 10 * pi)) / 3), 2 * (ln (41 / (12 * 10 ^ 10 * pi)) / 3))],
             l_Gpp = [Gpp_entry (2 * (ln (41 / (12 * 10 ^ 10 * pi)) / 3),
                       2 * (ln (41 / (12 * 10 ^ 10 * pi)) / 3), 2 * (ln (41 / (12 * 10 ^ 10 * pi)) / 3))],
             l_log = [Warning_MSD 2, Warning_G (- (2 * (ln (41 / (12 * 10 ^ 10 * pi)) / 3)))]\<rparr>"
proof -
  have w: "default_width \<noteq> 0" by (simp add: default_width_def)
  have first: "log_derivatives [exp 1] [exp 3] default_width [] = Return ((0, 0, 0), [[2]])"
    using log_derivatives_single [of "exp 1" "exp 3" default_width "[]"] w by simp
  have K: "(0::real) < 41 / (12 * 10 ^ 10 * pi)" by simp
  have second: "log_derivatives [1 / exp 1] [41 / (12 * 10 ^ 10 * pi)] default_width [[2]]
                  = Return ((1, 1, 1), [[2], [2 * (ln (41 / (12 * 10 ^ 10 * pi)) / 3)]])"
    using log_derivatives_single [of "1 / exp 1" "41 / (12 * 10 ^ 10 * pi)" default_width "[[2]]"] w K
    by (simp add: ln_div)
  have v: "2 * (ln (41 / (12 * 10 ^ 10 * pi)) / 3) < - 2"
    using G_s_example_bound by simp
  have ab: "\<bar>2 * ln (41 / (120000000000 * pi))\<bar> = - (2 * ln (41 / (120000000000 * pi)))"
    using G_s_example_bound by simp
  show ?thesis
    using assms second v
    by (simp add: gse_body_def Let_def first deref_def G_s_divisor_def gamma_pole_def ab)
qed

lemma gse_clip_effect:
  assumes lp: "length (l_Gp L) = length (l_G_s L)" and lpp: "length (l_Gpp L) = length (l_G_s L)"
  shows "\<exists>Gp Gpp lg.
           gse_clip clip L = ((l_w L, l_G_s L, Gp, Gpp), lg)
         \<and> length Gp = length (l_G_s L) \<and> length Gpp = length (l_G_s L)
         \<and> (\<forall>i < length (l_G_s L).
               Gp ! i = (if l_Gp L ! i < clip * l_G_s L ! i then 0 else l_Gp L ! i)
             \<and> Gpp ! i = (if l_Gpp L ! i < clip * l_G_s L ! i then 0 else l_Gpp L ! i))"
proof -
  let ?Gp = "if any_small clip (l_G_s L) (l_Gp L) then clip_small clip (l_G_s L) (l_Gp L) else l_Gp L"
  let ?Gpp = "if any_small clip (l_G_s L) (l_Gpp L) then clip_small clip (l_G_s L) (l_Gpp L) else l_Gpp L"
  have "\<exists>lg. gse_clip clip L = ((l_w L, l_G_s L, ?Gp, ?Gpp), lg)"
    by (simp add: gse_clip_def Let_def)
  moreover have "length ?Gp = length (l_G_s L)" "length ?Gpp = length (l_G_s L)"
    using clip_length [OF lp, of clip] clip_length [OF lpp, of clip] lp lpp by simp_all
  moreover have "?Gp ! i = (if l_Gp L ! i < clip * l_G_s L ! i then 0 else l_Gp L ! i)"
    if "i < length (l_G_s L)" for i
    using clip_effect [OF lp, of i clip] that lp by simp
  moreover have "?Gpp ! i = (if l_Gpp L ! i < clip * l_G_s L ! i then 0 else l_Gpp L ! i)"
    if "i < length (l_G_s L)" for i
    using clip_effect [OF lpp, of i clip] that lpp by simp
  ultimately show ?thesis by blast
qed


text \<open>
  Claim C5. Where the body of \<^verbatim>\<open>gse\<close> returns, \<^verbatim>\<open>gse\<close> returns \<open>w\<close> and \<open>G_s\<close> unchanged, and at
  every index \<open>i\<close> the returned storage modulus is 0 if its value before clipping is strictly
  below \<open>clip * G_s[i]\<close> and is that value otherwise; the same holds, independently, for the
  loss modulus. The second part states the same of lines 51 to 57 alone, on any locals whose
  moduli have the length of \<open>G_s\<close>.
\<close>

theorem gse_clipping:
  "(gse_body gamma t r2 a T clip width = Return L \<longrightarrow>
      (\<exists>Gp Gpp lg.
           gse gamma t r2 a T clip width = Return ((l_w L, l_G_s L, Gp, Gpp), lg)
         \<and> length Gp = length (l_G_s L) \<and> length Gpp = length (l_G_s L)
         \<and> (\<forall>i < length (l_G_s L).
               Gp ! i = (if l_Gp L ! i < clip * l_G_s L ! i then 0 else l_Gp L ! i)
             \<and> Gpp ! i = (if l_Gpp L ! i < clip * l_G_s L ! i then 0 else l_Gpp L ! i))))
   \<and> (length (l_Gp L') = length (l_G_s L') \<longrightarrow> length (l_Gpp L') = length (l_G_s L') \<longrightarrow>
      (\<exists>Gp Gpp lg.
           gse_clip clip' L' = ((l_w L', l_G_s L', Gp, Gpp), lg)
         \<and> length Gp = length (l_G_s L') \<and> length Gpp = length (l_G_s L')
         \<and> (\<forall>i < length (l_G_s L').
               Gp ! i = (if l_Gp L' ! i < clip' * l_G_s L' ! i then 0 else l_Gp L' ! i)
             \<and> Gpp ! i = (if l_Gpp L' ! i < clip' * l_G_s L' ! i then 0 else l_Gpp L' ! i))))"
proof (rule conjI; intro impI)
  assume body: "gse_body gamma t r2 a T clip width = Return L"
  from gse_body_Return [OF body]
  have lp: "length (l_Gp L) = length (l_G_s L)" and lpp: "length (l_Gpp L) = length (l_G_s L)"
    by simp_all
  have "gse gamma t r2 a T clip width = Return (gse_clip clip L)"
    by (simp add: gse_def body)
  then show "\<exists>Gp Gpp lg.
           gse gamma t r2 a T clip width = Return ((l_w L, l_G_s L, Gp, Gpp), lg)
         \<and> length Gp = length (l_G_s L) \<and> length Gpp = length (l_G_s L)
         \<and> (\<forall>i < length (l_G_s L).
               Gp ! i = (if l_Gp L ! i < clip * l_G_s L ! i then 0 else l_Gp L ! i)
             \<and> Gpp ! i = (if l_Gpp L ! i < clip * l_G_s L ! i then 0 else l_Gpp L ! i))"
    using gse_clip_effect [OF lp lpp, of clip] by auto
next
  assume "length (l_Gp L') = length (l_G_s L')" and "length (l_Gpp L') = length (l_G_s L')"
  then show "\<exists>Gp Gpp lg.
           gse_clip clip' L' = ((l_w L', l_G_s L', Gp, Gpp), lg)
         \<and> length Gp = length (l_G_s L') \<and> length Gpp = length (l_G_s L')
         \<and> (\<forall>i < length (l_G_s L').
               Gp ! i = (if l_Gp L' ! i < clip' * l_G_s L' ! i then 0 else l_Gp L' ! i)
             \<and> Gpp ! i = (if l_Gpp L' ! i < clip' * l_G_s L' ! i then 0 else l_Gpp L' ! i))"
    by (rule gse_clip_effect)
qed


text \<open>
  A run of \<^verbatim>\<open>gse\<close> on the one-point curve \<open>t = [e]\<close>, \<open>r2 = [e\<^sup>3]\<close> with \<open>a = 1\<close>, \<open>T = 298\<close> and the
  default \<open>clip\<close>: the storage modulus is negative before clipping and is set to 0, the loss
  modulus is above 2 and is left as it is. Then lines 51 to 57 on three-point locals: the
  entries \<open>1/10 < 0.03 * 4\<close> and \<open>1/20 < 0.03 * 2\<close> are set to 0, the entry \<open>3/100\<close>, equal to
  \<open>0.03 * 1\<close>, and the entries above their thresholds are kept.
\<close>

theorem gse_clipping_witness:
  "gse_body (\<lambda>z. 2) [exp 1] [exp 3] 1 298 default_clip default_width =
     Return \<lparr>l_w = [1 / exp 1],
             l_f = [2], l_df = [2], l_ddf = [2],
             l_G_s = [41 / (12 * 10 ^ 10 * pi)],
             l_g = [2 * (ln (41 / (12 * 10 ^ 10 * pi)) / 3)],
             l_dg = [2 * (ln (41 / (12 * 10 ^ 10 * pi)) / 3)],
             l_ddg = [2 * (ln (41 / (12 * 10 ^ 10 * pi)) / 3)],
             l_Gp = [Gp_entry (2 * (ln (41 / (12 * 10 ^ 10 * pi)) / 3),
                       2 * (ln (41 / (12 * 10 ^ 10 * pi)) / 3), 2 * (ln (41 / (12 * 10 ^ 10 * pi)) / 3))],
             l_Gpp = [Gpp_entry (2 * (ln (41 / (12 * 10 ^ 10 * pi)) / 3),
                       2 * (ln (41 / (12 * 10 ^ 10 * pi)) / 3), 2 * (ln (41 / (12 * 10 ^ 10 * pi)) / 3))],
             l_log = [Warning_MSD 2, Warning_G (- (2 * (ln (41 / (12 * 10 ^ 10 * pi)) / 3)))]\<rparr>
   \<and> Gp_entry (2 * (ln (41 / (12 * 10 ^ 10 * pi)) / 3),
         2 * (ln (41 / (12 * 10 ^ 10 * pi)) / 3), 2 * (ln (41 / (12 * 10 ^ 10 * pi)) / 3)) < 0
   \<and> 2 < Gpp_entry (2 * (ln (41 / (12 * 10 ^ 10 * pi)) / 3),
         2 * (ln (41 / (12 * 10 ^ 10 * pi)) / 3), 2 * (ln (41 / (12 * 10 ^ 10 * pi)) / 3))
   \<and> gse (\<lambda>z. 2) [exp 1] [exp 3] 1 298 default_clip default_width =
       Return (([1 / exp 1], [41 / (12 * 10 ^ 10 * pi)], [0],
                [Gpp_entry (2 * (ln (41 / (12 * 10 ^ 10 * pi)) / 3),
                   2 * (ln (41 / (12 * 10 ^ 10 * pi)) / 3), 2 * (ln (41 / (12 * 10 ^ 10 * pi)) / 3))]),
               [Warning_MSD 2, Warning_G (- (2 * (ln (41 / (12 * 10 ^ 10 * pi)) / 3))), Info_Gp_clipped])
   \<and> gse_clip default_clip
         \<lparr>l_w = [1, 1 / 2, 1 / 4], l_f = [1, 1, 1], l_df = [1, 1, 1], l_ddf = [1, 1, 1],
          l_G_s = [1, 2, 4], l_g = [1, 1, 1], l_dg = [1, 1, 1], l_ddg = [1, 1, 1],
          l_Gp = [3 / 100, 1 / 2, 1 / 10], l_Gpp = [1 / 2, 1 / 20, 1 / 2], l_log = []\<rparr>
       = (([1, 1 / 2, 1 / 4], [1, 2, 4], [3 / 100, 1 / 2, 0], [1 / 2, 0, 1 / 2]),
          [Info_Gp_clipped, Info_Gpp_clipped])"
proof -
  define V where "V = 2 * (ln (41 / (12 * 10 ^ 10 * pi)) / 3)"
  define K where "K = 41 / (12 * 10 ^ 10 * pi)"
  have g: "(\<lambda>z::real. 2::real) 3 = 2" by simp
  note body = example_single_gse_body [of "\<lambda>z. 2" default_clip default_width, OF g]
  have v: "V < - 2" unfolding V_def using G_s_example_bound by simp
  note m = moduli_far_below_minus_one [OF v]
  have K: "0 < K" "K < 1" unfolding K_def using pi_ge_three by (simp_all add: field_simps)
  have small: "Gp_entry (V, V, V) < default_clip * K"
  proof -
    have "0 < default_clip * K" using K(1) by (simp add: default_clip_def)
    then show ?thesis using m(1) by linarith
  qed
  have large: "\<not> Gpp_entry (V, V, V) < default_clip * K"
  proof -
    have "default_clip * K < 1" using K by (simp add: default_clip_def)
    then show ?thesis using m(2) by linarith
  qed
  have val: "gse (\<lambda>z. 2) [exp 1] [exp 3] 1 298 default_clip default_width =
       Return (([1 / exp 1], [K], [0], [Gpp_entry (V, V, V)]),
               [Warning_MSD 2, Warning_G (- V), Info_Gp_clipped])"
    using small large
    by (simp add: gse_def body [folded V_def K_def] gse_clip_def any_small_def clip_small_def)
  have syn: "gse_clip default_clip
         \<lparr>l_w = [1, 1 / 2, 1 / 4], l_f = [1, 1, 1], l_df = [1, 1, 1], l_ddf = [1, 1, 1],
          l_G_s = [1, 2, 4], l_g = [1, 1, 1], l_dg = [1, 1, 1], l_ddg = [1, 1, 1],
          l_Gp = [3 / 100, 1 / 2, 1 / 10], l_Gpp = [1 / 2, 1 / 20, 1 / 2], l_log = []\<rparr>
       = (([1, 1 / 2, 1 / 4], [1, 2, 4], [3 / 100, 1 / 2, 0], [1 / 2, 0, 1 / 2]),
          [Info_Gp_clipped, Info_Gpp_clipped])"
    by (simp add: gse_clip_def any_small_def clip_small_def default_clip_def)
  show ?thesis
    using gse_clipping [of "\<lambda>z. 2" "[exp 1]" "[exp 3]" 1 298 default_clip default_width _
        "\<lparr>l_w = [1, 1 / 2, 1 / 4], l_f = [1, 1, 1], l_df = [1, 1, 1], l_ddf = [1, 1, 1],
          l_G_s = [1, 2, 4], l_g = [1, 1, 1], l_dg = [1, 1, 1], l_ddg = [1, 1, 1],
          l_Gp = [3 / 100, 1 / 2, 1 / 10], l_Gpp = [1 / 2, 1 / 20, 1 / 2], l_log = []\<rparr>" default_clip]
      body m [unfolded V_def] val [unfolded V_def K_def] syn
    by blast
qed

end
